theory Spec2Isabelle
  imports Complex_Main "HOL-Library.Product_Lexorder"
begin

section \<open>The doctor controller of MediMantra\<close>

text \<open>
  A shallow embedding of \<^verbatim>\<open>src/server/controllers/doctor.controller.js\<close>. Every handler
  is a function from the request and the state of the world (the collections of the
  database, the file storage) to a response and the new state. The database, the file
  storage and the clock are outside the controller; they are modelled by what the
  controller asks of them, and every awaited call may throw.
\<close>

subsection \<open>Calls that may throw\<close>

text \<open>
  Each awaited call of the controller is named; \<open>fails\<close> says which of them throw in this
  run. A thrown error reaches the handler's \<^verbatim>\<open>catch\<close> block unless the source catches it
  earlier.
\<close>

datatype call =
    DoctorFind | DoctorSave | DoctorDelete
  | UserFind | UserSave
  | PatientFind
  | AppointmentFind | AppointmentCount | AppointmentUpdateMany | AppointmentAggregate
  | UploadFile string | DeleteFile string
  | UpdateAverageRating
  | CommitTransaction

type_synonym oid = nat

subsection \<open>Dates\<close>

text \<open>
  A JavaScript \<^verbatim>\<open>Date\<close> as the server's clock reads it, that is in the server's time
  zone: the year, the month from 0 as \<^verbatim>\<open>getMonth\<close> gives it, the days elapsed since the
  first of the month (\<^verbatim>\<open>getDate() - 1\<close>) and the milliseconds elapsed since midnight. Dates
  compare by their instant, which is the lexicographic order of these fields.
\<close>

record timestamp =
  t_year :: int
  t_month :: nat
  t_day :: nat
  t_ms :: nat

definition getFullYear :: "timestamp \<Rightarrow> int" where
  "getFullYear d = t_year d"

definition getMonth :: "timestamp \<Rightarrow> nat" where
  "getMonth d = t_month d"

definition getDate :: "timestamp \<Rightarrow> nat" where
  "getDate d = t_day d + 1"

definition ts_le :: "timestamp \<Rightarrow> timestamp \<Rightarrow> bool" where
  "ts_le a b =
     (t_year a < t_year b \<or> (t_year a = t_year b \<and>
       (t_month a < t_month b \<or> (t_month a = t_month b \<and>
         (t_day a < t_day b \<or> (t_day a = t_day b \<and> t_ms a \<le> t_ms b))))))"

definition ts_less :: "timestamp \<Rightarrow> timestamp \<Rightarrow> bool" where
  "ts_less a b = (ts_le a b \<and> \<not> ts_le b a)"

text \<open>
  \<^verbatim>\<open>new Date(year, month, 1)\<close>: a year from 0 to 99 stands for 1900 + year, and a month
  outside 0..11 carries into the year.
\<close>

definition Date_first :: "int \<Rightarrow> int \<Rightarrow> timestamp" where
  "Date_first y m =
     (let yr = (if 0 \<le> y \<and> y \<le> 99 then 1900 + y else y)
      in \<lparr>t_year = yr + m div 12, t_month = nat (m mod 12), t_day = 0, t_ms = 0\<rparr>)"

text \<open>
  The database reads a date in UTC: \<^verbatim>\<open>$month\<close> and \<^verbatim>\<open>$year\<close> are given no \<^verbatim>\<open>timezone\<close>.
  \<open>zone\<close> is the number of minutes that the server's clock is ahead of UTC (the negative
  of \<^verbatim>\<open>getTimezoneOffset()\<close>, less than a day either way), so the UTC reading of a date is
  its local reading moved back by \<open>zone\<close> minutes, into the day before or after when that
  crosses midnight.
\<close>

definition days_in_month :: "int \<Rightarrow> nat \<Rightarrow> nat" where
  "days_in_month y m =
     (let leap = (y mod 4 = 0 \<and> (y mod 100 \<noteq> 0 \<or> y mod 400 = 0))
      in [31, if leap then 29 else 28, 31, 30, 31, 30, 31, 31, 30, 31, 30, 31] ! (m mod 12))"

definition prev_day :: "timestamp \<Rightarrow> timestamp" where
  "prev_day d =
     (if 0 < t_day d then d\<lparr>t_day := t_day d - 1\<rparr>
      else if 0 < t_month d
      then d\<lparr>t_month := t_month d - 1, t_day := days_in_month (t_year d) (t_month d - 1) - 1\<rparr>
      else d\<lparr>t_year := t_year d - 1, t_month := 11, t_day := 30\<rparr>)"

definition next_day :: "timestamp \<Rightarrow> timestamp" where
  "next_day d =
     (if t_day d + 1 < days_in_month (t_year d) (t_month d) then d\<lparr>t_day := t_day d + 1\<rparr>
      else if t_month d < 11 then d\<lparr>t_month := t_month d + 1, t_day := 0\<rparr>
      else d\<lparr>t_year := t_year d + 1, t_month := 0, t_day := 0\<rparr>)"

definition toUTC :: "int \<Rightarrow> timestamp \<Rightarrow> timestamp" where
  "toUTC zone d =
     (let s = int (t_ms d) - zone * 60000
      in if s < 0 then (prev_day d)\<lparr>t_ms := nat (s + 86400000)\<rparr>
         else if 86400000 \<le> s then (next_day d)\<lparr>t_ms := nat (s - 86400000)\<rparr>
         else d\<lparr>t_ms := nat s\<rparr>)"

subsection \<open>Appointments\<close>

record appointment =
  a_doctor :: oid
  a_patient :: oid
  a_appointmentDate :: timestamp
  a_appointmentTime :: string
  a_status :: string
  a_cancellationReason :: string
  a_createdAt :: timestamp

subsection \<open>Monthly appointment statistics\<close>

text \<open>A group of the aggregation: \<^verbatim>\<open>{_id: {month, year}, count}\<close>, the month from 1.\<close>

record bucket =
  b_month :: nat
  b_year :: int
  b_count :: nat

text \<open>
  The pipeline of \<^verbatim>\<open>Appointment.aggregate\<close>: \<^verbatim>\<open>$match\<close> keeps the doctor's appointments
  created on or after \<open>sixMonthsAgo\<close> (a comparison of instants), \<^verbatim>\<open>$group\<close> counts them by
  the month and year of creation as the database reads them, in UTC, and \<^verbatim>\<open>$sort\<close> orders
  the groups by year, then month.
\<close>

definition aggregate_monthly ::
    "int \<Rightarrow> oid \<Rightarrow> timestamp \<Rightarrow> appointment list \<Rightarrow> bucket list" where
  "aggregate_monthly zone doctorId sixMonthsAgo appts =
     (let matched = filter (\<lambda>a. a_doctor a = doctorId \<and> ts_le sixMonthsAgo (a_createdAt a)) appts;
          keys = map (\<lambda>a. (t_month (toUTC zone (a_createdAt a)) + 1,
                            t_year (toUTC zone (a_createdAt a)))) matched;
          groups = map (\<lambda>k. \<lparr>b_month = fst k, b_year = snd k, b_count = count_list keys k\<rparr>)
                     (remdups keys)
      in sort_key (\<lambda>b. (b_year b, b_month b)) groups)"

definition months :: "string list" where
  "months = [''Jan'', ''Feb'', ''Mar'', ''Apr'', ''May'', ''Jun'',
             ''Jul'', ''Aug'', ''Sep'', ''Oct'', ''Nov'', ''Dec'']"

record stat =
  month :: string
  year :: int
  count :: nat

text \<open>
  The entry that one round of the loop \<^verbatim>\<open>for (let i = 0; i < 6; i++)\<close> builds for the
  month \<open>i\<close> months before the current one.
\<close>

definition stats_entry :: "timestamp \<Rightarrow> bucket list \<Rightarrow> nat \<Rightarrow> stat" where
  "stats_entry now appointments i =
     (let d = Date_first (getFullYear now) (int (getMonth now) - int i);
          month = getMonth d;
          year = getFullYear d;
          found = find (\<lambda>a. b_month a = month + 1 \<and> b_year a = year) appointments
      in \<lparr>month = months ! month, year = year,
          count = (case found of Some f \<Rightarrow> b_count f | None \<Rightarrow> 0)\<rparr>)"

text \<open>
  \<^verbatim>\<open>getMonthlyAppointmentStats\<close>; \<^verbatim>\<open>results.unshift\<close> puts each entry in front. The window
  is built with \<^verbatim>\<open>new Date(year, month, 1)\<close>, \<^verbatim>\<open>getMonth\<close> and \<^verbatim>\<open>getFullYear\<close>, which read the
  server's time zone. The helper catches nothing: when the aggregation throws, so does
  the helper (\<open>None\<close>).
\<close>

definition getMonthlyAppointmentStats ::
    "(call \<Rightarrow> bool) \<Rightarrow> int \<Rightarrow> timestamp \<Rightarrow> oid \<Rightarrow> appointment list \<Rightarrow> stat list option" where
  "getMonthlyAppointmentStats fails zone now doctorId appts =
     (let sixMonthsAgo = Date_first (getFullYear now) (int (getMonth now) - 5)
      in if fails AppointmentAggregate then None
         else (let appointments = aggregate_monthly zone doctorId sixMonthsAgo appts
               in Some (fold (\<lambda>i results. stats_entry now appointments i # results)
                          [0..<6] [])))"

text \<open>
  The contract in the specification's words: the current month and the five before it,
  oldest first, each with the number of the doctor's appointments created in it, months
  being those of the server's calendar, in which the window is laid out.
\<close>

fun prev_month :: "int \<times> nat \<Rightarrow> int \<times> nat" where
  "prev_month (y, m) = (if m = 0 then (y - 1, 11) else (y, m - 1))"

definition months_window :: "int \<times> nat \<Rightarrow> (int \<times> nat) list" where
  "months_window cur = rev (map (\<lambda>i. (prev_month ^^ i) cur) [0..<6])"

definition created_in :: "oid \<Rightarrow> int \<times> nat \<Rightarrow> appointment \<Rightarrow> bool" where
  "created_in doctorId ym a =
     (a_doctor a = doctorId \<and> t_year (a_createdAt a) = fst ym \<and> t_month (a_createdAt a) = snd ym)"

definition monthly_contract :: "timestamp \<Rightarrow> oid \<Rightarrow> appointment list \<Rightarrow> stat list" where
  "monthly_contract now doctorId appts =
     map (\<lambda>ym. \<lparr>month = months ! snd ym, year = fst ym,
                count = length (filter (created_in doctorId ym) appts)\<rparr>)
         (months_window (t_year now, t_month now))"

subsection \<open>Values of a request body\<close>

text \<open>
  A field of \<^verbatim>\<open>req.body\<close> is a JSON value, or \<^verbatim>\<open>undefined\<close> when the body does not have
  it. \<open>truthy\<close> is the test that \<^verbatim>\<open>if (v)\<close> and \<^verbatim>\<open>v || w\<close> make.
\<close>

datatype jsval =
    JUndefined
  | JNull
  | JBool bool
  | JNum rat
  | JStr string
  | JArr "jsval list"
  | JObj "(string \<times> jsval) list"

fun truthy :: "jsval \<Rightarrow> bool" where
  "truthy JUndefined = False"
| "truthy JNull = False"
| "truthy (JBool b) = b"
| "truthy (JNum n) = (n \<noteq> 0)"
| "truthy (JStr s) = (s \<noteq> [])"
| "truthy (JArr xs) = True"
| "truthy (JObj kvs) = True"

subsection \<open>Documents\<close>

record user =
  u_id :: oid
  u_role :: string

record patient =
  p_id :: oid
  p_user :: oid

record verification_document =
  vd_name :: string
  vd_url :: string
  vd_verified :: bool

record review =
  r_patient :: oid
  r_rating :: rat
  r_comment :: string
  r_date :: int

record slot =
  startTime :: string
  endTime :: string

record day_availability =
  day :: string
  isAvailable :: bool
  slots :: "slot list"

record doctor =
  d_id :: oid
  d_user :: oid
  d_qualifications :: jsval
  d_specialties :: jsval
  d_experience :: jsval
  d_registrationNumber :: string
  d_registrationCouncil :: jsval
  d_clinicDetails :: jsval
  d_hospitalAffiliations :: jsval
  d_consultationFee :: jsval
  d_languages :: jsval
  d_bio :: jsval
  d_videoConsultation :: jsval
  d_acceptingNewPatients :: jsval
  d_verificationDocuments :: "verification_document list"
  d_isVerified :: bool
  d_availability :: "day_availability list"
  d_reviews :: "review list"
  d_averageRating :: rat

subsection \<open>The world: database and file storage\<close>

text \<open>
  The collections keep their documents in the order in which \<^verbatim>\<open>findOne\<close> meets them. The
  file storage is seen through the calls made to it: the names of the files handed to
  \<^verbatim>\<open>uploadFile\<close> and the URLs handed to \<^verbatim>\<open>deleteFile\<close>.
\<close>

record database =
  doctors :: "doctor list"
  users :: "user list"
  patients :: "patient list"
  appointments :: "appointment list"

record world =
  db :: database
  uploadFile_calls :: "string list"
  deleteFile_calls :: "string list"

text \<open>
  What a run of a handler is given from outside: which calls throw, the clock
  (\<^verbatim>\<open>new Date()\<close> and \<^verbatim>\<open>Date.now()\<close>), the URL that the storage gives an uploaded file, and
  the identifier of a new document.
\<close>

record env =
  e_fails :: "call \<Rightarrow> bool"
  e_now :: timestamp
  e_Date_now :: int
  e_uploadedUrl :: "string \<Rightarrow> string"
  e_newId :: oid

subsection \<open>Requests and responses\<close>

text \<open>
  The fields of \<^verbatim>\<open>req.body\<close> that the handlers read. The rating is a number and the
  registration number a string; \<open>availability\<close> is an array when present (an array is
  truthy even when empty) and \<open>None\<close> when absent or falsy.
\<close>

record body =
  qualifications :: jsval
  specialties :: jsval
  experience :: jsval
  registrationNumber :: string
  registrationCouncil :: jsval
  clinicDetails :: jsval
  hospitalAffiliations :: jsval
  consultationFee :: jsval
  languages :: jsval
  bio :: jsval
  availability :: "day_availability list option"
  videoConsultation :: jsval
  acceptingNewPatients :: jsval
  rating :: rat
  comment :: string

text \<open>
  \<^verbatim>\<open>req.user.id\<close> and \<^verbatim>\<open>req.user.role\<close> as the authentication middleware set them,
  \<^verbatim>\<open>req.params.id\<close>, \<^verbatim>\<open>req.query.date\<close> parsed by \<^verbatim>\<open>new Date(date)\<close> (\<open>None\<close> when the query
  has no date), the body, and the original names of the uploaded files.
\<close>

record request =
  user_id :: oid
  user_role :: string
  params_id :: oid
  query_date :: "timestamp option"
  req_body :: body
  files :: "string list"

text \<open>The JSON envelope \<^verbatim>\<open>{success, message, data}\<close> with its HTTP status.\<close>

record 'a response =
  status :: nat
  success :: bool
  message :: string
  data :: "'a option"

definition respond :: "nat \<Rightarrow> bool \<Rightarrow> string \<Rightarrow> 'a option \<Rightarrow> 'a response" where
  "respond st ok msg d = \<lparr>status = st, success = ok, message = msg, data = d\<rparr>"

text \<open>The response of every \<^verbatim>\<open>catch\<close> block.\<close>

abbreviation server_error :: "'a response" where
  "server_error \<equiv> respond 500 False ''Server error'' None"

subsection \<open>Database operations\<close>

definition insert_doctor :: "doctor \<Rightarrow> database \<Rightarrow> database" where
  "insert_doctor d base = base\<lparr>doctors := doctors base @ [d]\<rparr>"

text \<open>\<^verbatim>\<open>doc.save()\<close> of a document that was read from its collection: it replaces the
  document with the same \<^verbatim>\<open>_id\<close>.\<close>

definition save_doctor :: "doctor \<Rightarrow> database \<Rightarrow> database" where
  "save_doctor d base =
     base\<lparr>doctors := map (\<lambda>x. if d_id x = d_id d then d else x) (doctors base)\<rparr>"

definition save_user :: "user \<Rightarrow> database \<Rightarrow> database" where
  "save_user u base =
     base\<lparr>users := map (\<lambda>x. if u_id x = u_id u then u else x) (users base)\<rparr>"

definition findByIdAndDelete :: "oid \<Rightarrow> database \<Rightarrow> database" where
  "findByIdAndDelete i base = base\<lparr>doctors := filter (\<lambda>d. d_id d \<noteq> i) (doctors base)\<rparr>"

definition updateMany ::
    "(appointment \<Rightarrow> bool) \<Rightarrow> (appointment \<Rightarrow> appointment) \<Rightarrow> database \<Rightarrow> database" where
  "updateMany flt upd base =
     base\<lparr>appointments := map (\<lambda>a. if flt a then upd a else a) (appointments base)\<rparr>"

subsection \<open>Transactions\<close>

text \<open>
  A run of a transactional handler: the world, and the writes that were passed the
  session, in order. They reach the database when the transaction commits and are
  dropped when it aborts; \<^verbatim>\<open>endSession\<close> drops a transaction that is still open. Reads in
  these handlers are made without the session and see the database as it is.
\<close>

record run =
  rw :: world
  txn :: "(database \<Rightarrow> database) list"

definition startTransaction :: "world \<Rightarrow> run" where
  "startTransaction w = \<lparr>rw = w, txn = []\<rparr>"

definition session_write :: "(database \<Rightarrow> database) \<Rightarrow> run \<Rightarrow> run" where
  "session_write f r = r\<lparr>txn := txn r @ [f]\<rparr>"

definition commitTransaction :: "run \<Rightarrow> run" where
  "commitTransaction r = \<lparr>rw = (rw r)\<lparr>db := fold (\<lambda>f base. f base) (txn r) (db (rw r))\<rparr>, txn = []\<rparr>"

definition abortTransaction :: "run \<Rightarrow> run" where
  "abortTransaction r = r\<lparr>txn := []\<rparr>"

definition endSession :: "run \<Rightarrow> world" where
  "endSession r = rw r"

text \<open>What the \<^verbatim>\<open>try\<close> block of a handler ends with: a thrown error or a response.\<close>

datatype 'a outcome = Throw | Return "'a response"

text \<open>
  \<^verbatim>\<open>catch (error) { await session.abortTransaction(); res.status(500)... } finally {
  session.endSession(); }\<close>
\<close>

definition catch_finally :: "'a outcome \<times> run \<Rightarrow> 'a response \<times> world" where
  "catch_finally x =
     (case fst x of
        Return resp \<Rightarrow> (resp, endSession (snd x))
      | Throw \<Rightarrow> (server_error, endSession (abortTransaction (snd x))))"

subsection \<open>File storage loops\<close>

text \<open>
  \<^verbatim>\<open>for (const file of req.files) { const uploadedFile = await uploadFile(...);
  docs.push({name: file.originalname, url: uploadedFile.url, verified: false}) }\<close>:
  an upload that throws ends the loop (\<open>None\<close>).
\<close>

fun upload_documents ::
    "env \<Rightarrow> string list \<Rightarrow> verification_document list \<Rightarrow> world
       \<Rightarrow> verification_document list option \<times> world" where
  "upload_documents e [] docs w = (Some docs, w)"
| "upload_documents e (file # rest) docs w =
     (let w1 = w\<lparr>uploadFile_calls := uploadFile_calls w @ [file]\<rparr>
      in if e_fails e (UploadFile file) then (None, w1)
         else upload_documents e rest
                (docs @ [\<lparr>vd_name = file, vd_url = e_uploadedUrl e file, vd_verified = False\<rparr>]) w1)"

text \<open>
  The loop of \<^verbatim>\<open>deleteDoctorByAdmin\<close>: \<^verbatim>\<open>await deleteFile(doc.url)\<close> for every document; a
  deletion that throws ends the loop (\<open>False\<close>).
\<close>

fun delete_documents :: "env \<Rightarrow> verification_document list \<Rightarrow> world \<Rightarrow> bool \<times> world" where
  "delete_documents e [] w = (True, w)"
| "delete_documents e (doc # rest) w =
     (let w1 = w\<lparr>deleteFile_calls := deleteFile_calls w @ [vd_url doc]\<rparr>
      in if e_fails e (DeleteFile (vd_url doc)) then (False, w1)
         else delete_documents e rest w1)"

text \<open>
  The loop of \<^verbatim>\<open>deleteDoctor\<close>: only documents with a URL, and each deletion in its own
  \<^verbatim>\<open>try\<close>, whose \<^verbatim>\<open>catch\<close> logs the error and goes on.
\<close>

fun delete_documents_caught :: "env \<Rightarrow> verification_document list \<Rightarrow> world \<Rightarrow> world" where
  "delete_documents_caught e [] w = w"
| "delete_documents_caught e (doc # rest) w =
     (if vd_url doc \<noteq> [] then
        (let w1 = w\<lparr>deleteFile_calls := deleteFile_calls w @ [vd_url doc]\<rparr>
         in if e_fails e (DeleteFile (vd_url doc)) then delete_documents_caught e rest w1
            else delete_documents_caught e rest w1)
      else delete_documents_caught e rest w)"

subsection \<open>createDoctor\<close>

definition js_or :: "jsval \<Rightarrow> jsval \<Rightarrow> jsval" where
  "js_or v w = (if truthy v then v else w)"

text \<open>
  \<^verbatim>\<open>new Doctor({...})\<close>; the fields that the handler does not give are the schema's
  defaults, which are not in the controller.
\<close>

definition new_Doctor :: "env \<Rightarrow> oid \<Rightarrow> body \<Rightarrow> verification_document list \<Rightarrow> doctor" where
  "new_Doctor e userId b verificationDocuments =
     \<lparr>d_id = e_newId e,
      d_user = userId,
      d_qualifications = js_or (qualifications b) (JArr []),
      d_specialties = js_or (specialties b) (JArr []),
      d_experience = experience b,
      d_registrationNumber = registrationNumber b,
      d_registrationCouncil = registrationCouncil b,
      d_clinicDetails = clinicDetails b,
      d_hospitalAffiliations = js_or (hospitalAffiliations b) (JArr []),
      d_consultationFee = consultationFee b,
      d_languages = js_or (languages b) (JArr []),
      d_bio = bio b,
      d_videoConsultation = JUndefined,
      d_acceptingNewPatients = JUndefined,
      d_verificationDocuments = verificationDocuments,
      d_isVerified = False,
      d_availability = [],
      d_reviews = [],
      d_averageRating = 0\<rparr>"

definition createDoctor_try :: "env \<Rightarrow> request \<Rightarrow> run \<Rightarrow> doctor outcome \<times> run" where
  "createDoctor_try e req r =
     (if e_fails e DoctorFind then (Throw, r)
      else case find (\<lambda>d. d_registrationNumber d = registrationNumber (req_body req))
                  (doctors (db (rw r))) of
        Some existingDoctor \<Rightarrow>
          (Return (respond 400 False
             ''Doctor with this registration number already exists'' None), r)
      | None \<Rightarrow>
         (let userId = user_id req
          in if e_fails e UserFind then (Throw, r)
             else (case find (\<lambda>u. u_id u = userId) (users (db (rw r))) of
               None \<Rightarrow> (Return (respond 404 False ''User not found'' None), r)
             | Some user \<Rightarrow>
                 if u_role user \<noteq> ''doctor'' \<and> u_role user \<noteq> ''admin''
                 then (Return (respond 403 False
                         ''User is not authorized to create a doctor profile'' None), r)
                 else (case upload_documents e (files req) [] (rw r) of
                   (None, w1) \<Rightarrow> (Throw, r\<lparr>rw := w1\<rparr>)
                 | (Some verificationDocuments, w1) \<Rightarrow>
                     (let r1 = r\<lparr>rw := w1\<rparr>;
                          newDoctor = new_Doctor e userId (req_body req) verificationDocuments
                      in if e_fails e DoctorSave then (Throw, r1)
                         else (let r2 = session_write (insert_doctor newDoctor) r1
                               in (case (if u_role user \<noteq> ''doctor''
                                         then (if e_fails e UserSave then None
                                               else Some (session_write
                                                      (save_user (user\<lparr>u_role := ''doctor''\<rparr>)) r2))
                                         else Some r2) of
                                     None \<Rightarrow> (Throw, r2)
                                   | Some r3 \<Rightarrow>
                                       if e_fails e CommitTransaction then (Throw, r3)
                                       else (Return (respond 201 True
                                               ''Doctor profile created successfully and pending verification''
                                               (Some newDoctor)),
                                             commitTransaction r3))))))))"

definition createDoctor :: "env \<Rightarrow> request \<Rightarrow> world \<Rightarrow> doctor response \<times> world" where
  "createDoctor e req w = catch_finally (createDoctor_try e req (startTransaction w))"

subsection \<open>deleteDoctorByAdmin and deleteDoctor\<close>

definition deleteDoctorByAdmin_try :: "env \<Rightarrow> request \<Rightarrow> run \<Rightarrow> unit outcome \<times> run" where
  "deleteDoctorByAdmin_try e req r =
     (let doctorId = params_id req
      in if user_role req \<noteq> ''admin''
         then (Return (respond 403 False ''Not authorized to delete doctor profiles'' None), r)
         else if e_fails e DoctorFind then (Throw, r)
         else case find (\<lambda>d. d_id d = doctorId) (doctors (db (rw r))) of
           None \<Rightarrow> (Return (respond 404 False ''Doctor not found'' None), r)
         | Some doctor \<Rightarrow>
             (case delete_documents e (d_verificationDocuments doctor) (rw r) of
                (False, w1) \<Rightarrow> (Throw, r\<lparr>rw := w1\<rparr>)
              | (True, w1) \<Rightarrow>
                  (let r1 = r\<lparr>rw := w1\<rparr>
                   in if e_fails e DoctorDelete then (Throw, r1)
                      else (let r2 = session_write (findByIdAndDelete doctorId) r1
                            in if e_fails e UserFind then (Throw, r2)
                               else case (case find (\<lambda>u. u_id u = d_user doctor)
                                                 (users (db (rw r2))) of
                                            None \<Rightarrow> Some r2
                                          | Some user \<Rightarrow>
                                              if e_fails e UserSave then None
                                              else Some (session_write
                                                     (save_user (user\<lparr>u_role := ''user''\<rparr>)) r2)) of
                                 None \<Rightarrow> (Throw, r2)
                               | Some r3 \<Rightarrow>
                                   if e_fails e CommitTransaction then (Throw, r3)
                                   else (Return (respond 200 True
                                           ''Doctor profile deleted successfully'' None),
                                         commitTransaction r3)))))"

definition deleteDoctorByAdmin :: "env \<Rightarrow> request \<Rightarrow> world \<Rightarrow> unit response \<times> world" where
  "deleteDoctorByAdmin e req w =
     catch_finally (deleteDoctorByAdmin_try e req (startTransaction w))"

text \<open>
  The filter of \<^verbatim>\<open>Appointment.countDocuments\<close> in \<^verbatim>\<open>deleteDoctor\<close>:
  \<^verbatim>\<open>{doctor, status: 'scheduled', appointmentDate: {$gte: new Date()}}\<close>.
\<close>

definition active_appointment :: "env \<Rightarrow> oid \<Rightarrow> appointment \<Rightarrow> bool" where
  "active_appointment e doctorId a =
     (a_doctor a = doctorId \<and> a_status a = ''scheduled'' \<and> ts_le (e_now e) (a_appointmentDate a))"

text \<open>
  The bulk update of \<^verbatim>\<open>deleteDoctor\<close>: filter \<^verbatim>\<open>{doctor, status: {$ne: 'completed'}}\<close>,
  update \<^verbatim>\<open>{status: 'cancelled', cancellationReason: 'Doctor no longer available'}\<close>.
\<close>

definition cancel_appointments :: "oid \<Rightarrow> database \<Rightarrow> database" where
  "cancel_appointments doctorId =
     updateMany (\<lambda>a. a_doctor a = doctorId \<and> a_status a \<noteq> ''completed'')
       (\<lambda>a. a\<lparr>a_status := ''cancelled'',
               a_cancellationReason := ''Doctor no longer available''\<rparr>)"

definition deleteDoctor_try :: "env \<Rightarrow> request \<Rightarrow> run \<Rightarrow> unit outcome \<times> run" where
  "deleteDoctor_try e req r =
     (let userId = user_id req
      in if e_fails e DoctorFind then (Throw, r)
         else case find (\<lambda>d. d_user d = userId) (doctors (db (rw r))) of
           None \<Rightarrow> (Return (respond 404 False ''Doctor profile not found'' None), r)
         | Some doctor \<Rightarrow>
             if e_fails e AppointmentCount then (Throw, r)
             else (let activeAppointments =
                         length (filter (active_appointment e (d_id doctor))
                                   (appointments (db (rw r))))
                   in if activeAppointments > 0
                      then (Return (respond 400 False
                              ''Cannot delete account with active appointments. Please reschedule or cancel them first.''
                              None), r)
                      else (let r1 = r\<lparr>rw := delete_documents_caught e
                                                (d_verificationDocuments doctor) (rw r)\<rparr>
                            in if e_fails e AppointmentUpdateMany then (Throw, r1)
                               else (let r2 = session_write (cancel_appointments (d_id doctor)) r1
                                     in if e_fails e DoctorDelete then (Throw, r2)
                                        else (let r3 = session_write
                                                         (findByIdAndDelete (d_id doctor)) r2
                                              in if e_fails e UserFind then (Throw, r3)
                                                 else case (case find (\<lambda>u. u_id u = userId)
                                                                   (users (db (rw r3))) of
                                                              None \<Rightarrow> Some r3
                                                            | Some user \<Rightarrow>
                                                                if e_fails e UserSave then None
                                                                else Some (session_write
                                                                       (save_user
                                                                          (user\<lparr>u_role := ''user''\<rparr>))
                                                                       r3)) of
                                                   None \<Rightarrow> (Throw, r3)
                                                 | Some r4 \<Rightarrow>
                                                     if e_fails e CommitTransaction
                                                     then (Throw, r4)
                                                     else (Return (respond 200 True
                                                             ''Doctor account deleted successfully''
                                                             None),
                                                           commitTransaction r4))))))"

definition deleteDoctor :: "env \<Rightarrow> request \<Rightarrow> world \<Rightarrow> unit response \<times> world" where
  "deleteDoctor e req w = catch_finally (deleteDoctor_try e req (startTransaction w))"

subsection \<open>addDoctorReview\<close>

text \<open>\<^verbatim>\<open>Array.prototype.findIndex\<close>: the first index whose element passes, or -1.\<close>

fun findIndex :: "('a \<Rightarrow> bool) \<Rightarrow> 'a list \<Rightarrow> int" where
  "findIndex P [] = - 1"
| "findIndex P (x # xs) =
     (if P x then 0 else (let i = findIndex P xs in if i = - 1 then - 1 else i + 1))"

definition average :: "rat list \<Rightarrow> rat" where
  "average xs = (if xs = [] then 0 else sum_list xs / of_nat (length xs))"

text \<open>
  Modelled from the spec: \<^verbatim>\<open>doctor.updateAverageRating()\<close> is a method of the Doctor model,
  which is not in the controller. The specification says that after every insert or
  update of a review the cached average rating is recomputed from the full review list;
  the method also stores the document, since the handler saves nothing itself.
\<close>

definition updateAverageRating :: "env \<Rightarrow> doctor \<Rightarrow> world \<Rightarrow> (doctor \<times> world) option" where
  "updateAverageRating e d w =
     (if e_fails e UpdateAverageRating then None
      else (let d1 = d\<lparr>d_averageRating := average (map r_rating (d_reviews d))\<rparr>
            in Some (d1, w\<lparr>db := save_doctor d1 (db w)\<rparr>)))"

text \<open>
  The branch on \<^verbatim>\<open>existingReviewIndex > -1\<close>: the three assignments to the review at
  that index, or the \<^verbatim>\<open>push\<close> of a new review.
\<close>

definition upsert_review :: "env \<Rightarrow> oid \<Rightarrow> rat \<Rightarrow> string \<Rightarrow> review list \<Rightarrow> review list" where
  "upsert_review e patientId rating' comment' reviews =
     (let existingReviewIndex = findIndex (\<lambda>r. r_patient r = patientId) reviews
      in if existingReviewIndex > - 1
         then (let i = nat existingReviewIndex;
                   reviews1 = reviews[i := (reviews ! i)\<lparr>r_rating := rating'\<rparr>];
                   reviews2 = reviews1[i := (reviews1 ! i)\<lparr>r_comment := comment'\<rparr>]
               in reviews2[i := (reviews2 ! i)\<lparr>r_date := e_Date_now e\<rparr>])
         else reviews @ [\<lparr>r_patient = patientId, r_rating = rating', r_comment = comment',
                          r_date = e_Date_now e\<rparr>])"

definition addDoctorReview :: "env \<Rightarrow> request \<Rightarrow> world \<Rightarrow> review list response \<times> world" where
  "addDoctorReview e req w =
     (let doctorId = params_id req;
          rating' = rating (req_body req);
          comment' = comment (req_body req);
          userId = user_id req
      in if rating' = 0 \<or> rating' < 1 \<or> rating' > 5
         then (respond 400 False ''Rating must be between 1 and 5'' None, w)
         else if e_fails e DoctorFind then (server_error, w)
         else (case find (\<lambda>d. d_id d = doctorId) (doctors (db w)) of
           None \<Rightarrow> (respond 404 False ''Doctor not found'' None, w)
         | Some doctor \<Rightarrow>
             if e_fails e PatientFind then (server_error, w)
             else (case find (\<lambda>p. p_user p = userId) (patients (db w)) of
               None \<Rightarrow> (respond 404 False ''Patient profile not found'' None, w)
             | Some patient \<Rightarrow>
                 if e_fails e AppointmentFind then (server_error, w)
                 else (case find (\<lambda>a. a_doctor a = doctorId \<and> a_patient a = p_id patient \<and>
                                       a_status a = ''completed'') (appointments (db w)) of
                   None \<Rightarrow>
                     (respond 403 False
                        ''You can only review doctors after completing an appointment'' None, w)
                 | Some hadAppointment \<Rightarrow>
                     (let doctor1 = doctor\<lparr>d_reviews :=
                            upsert_review e (p_id patient) rating' comment' (d_reviews doctor)\<rparr>
                      in (case updateAverageRating e doctor1 w of
                            None \<Rightarrow> (server_error, w)
                          | Some saved \<Rightarrow>
                              (respond 200 True ''Review added successfully''
                                 (Some (d_reviews (fst saved))), snd saved)))))))"

subsection \<open>getDoctorAvailability\<close>

definition weekdays :: "string list" where
  "weekdays = [''Sunday'', ''Monday'', ''Tuesday'', ''Wednesday'', ''Thursday'', ''Friday'',
               ''Saturday'']"

text \<open>\<^verbatim>\<open>getDay()\<close>: the day of the week of a date of the Gregorian calendar, 0 for Sunday.\<close>

definition getDay :: "timestamp \<Rightarrow> nat" where
  "getDay d =
     (let y = (if t_month d < 2 then t_year d - 1 else t_year d);
          t = [0, 3, 2, 5, 0, 3, 5, 1, 4, 6, 2, 4] ! (t_month d mod 12)
      in nat ((y + y div 4 - y div 100 + y div 400 + t + int (getDate d)) mod 7))"

text \<open>
  \<^verbatim>\<open>setHours(h, m, s)\<close> with three arguments sets hours, minutes and seconds and keeps the
  milliseconds of the date.
\<close>

definition setHours :: "timestamp \<Rightarrow> nat \<Rightarrow> nat \<Rightarrow> nat \<Rightarrow> timestamp" where
  "setHours d h m s = d\<lparr>t_ms := ((h * 60 + m) * 60 + s) * 1000 + t_ms d mod 1000\<rparr>"

record slot_view = slot +
  isBooked :: bool

record day_view =
  dayOfWeek :: string
  dv_isAvailable :: bool
  availableSlots :: "slot_view list"

datatype availability_data = FullSchedule "day_availability list" | ForDate day_view

text \<open>
  The filter of \<^verbatim>\<open>Appointment.find\<close>; \<^verbatim>\<open>queryDate.setHours(0, 0, 0)\<close> changes \<^verbatim>\<open>queryDate\<close>,
  and \<^verbatim>\<open>queryDate.setHours(23, 59, 59)\<close> starts from the changed date.
\<close>

definition booked_on :: "oid \<Rightarrow> timestamp \<Rightarrow> appointment \<Rightarrow> bool" where
  "booked_on doctorId queryDate a =
     (let dayStart = setHours queryDate 0 0 0;
          dayEnd = setHours dayStart 23 59 59
      in a_doctor a = doctorId \<and>
         ts_le dayStart (a_appointmentDate a) \<and> ts_less (a_appointmentDate a) dayEnd \<and>
         a_status a \<notin> set [''cancelled'', ''no-show''])"

definition getDoctorAvailability :: "env \<Rightarrow> request \<Rightarrow> world \<Rightarrow> availability_data response" where
  "getDoctorAvailability e req w =
     (let doctorId = params_id req
      in if e_fails e DoctorFind then server_error
         else case find (\<lambda>d. d_id d = doctorId) (doctors (db w)) of
           None \<Rightarrow> respond 404 False ''Doctor not found'' None
         | Some doctor \<Rightarrow>
             (case query_date req of
                Some queryDate \<Rightarrow>
                  (let dayOfWeek' = weekdays ! getDay queryDate
                   in if e_fails e AppointmentFind then server_error
                      else (let appointments' = filter (booked_on doctorId queryDate)
                                                  (appointments (db w));
                                bookedSlots = map a_appointmentTime appointments';
                                dayAvailability = find (\<lambda>a. day a = dayOfWeek')
                                                    (d_availability doctor)
                            in case dayAvailability of
                                 None \<Rightarrow>
                                   respond 200 True []
                                     (Some (ForDate \<lparr>dayOfWeek = dayOfWeek',
                                        dv_isAvailable = False, availableSlots = []\<rparr>))
                               | Some da \<Rightarrow>
                                   if \<not> isAvailable da
                                   then respond 200 True []
                                          (Some (ForDate \<lparr>dayOfWeek = dayOfWeek',
                                             dv_isAvailable = False, availableSlots = []\<rparr>))
                                   else respond 200 True []
                                          (Some (ForDate \<lparr>dayOfWeek = dayOfWeek',
                                             dv_isAvailable = True,
                                             availableSlots =
                                               map (\<lambda>slot. \<lparr>startTime = startTime slot,
                                                      endTime = endTime slot,
                                                      isBooked = startTime slot \<in> set bookedSlots\<rparr>)
                                                 (slots da)\<rparr>))))
              | None \<Rightarrow> respond 200 True [] (Some (FullSchedule (d_availability doctor)))))"

subsection \<open>updateDoctor and updateDoctorProfile\<close>

text \<open>One guarded assignment \<^verbatim>\<open>if (cond) doctor.field = value\<close>.\<close>

definition assign_if :: "bool \<Rightarrow> (doctor \<Rightarrow> doctor) \<Rightarrow> doctor \<Rightarrow> doctor" where
  "assign_if cond assign doctor = (if cond then assign doctor else doctor)"

text \<open>The assignments of \<^verbatim>\<open>updateDoctor\<close>, in the order of the source.\<close>

definition updateDoctor_fields :: "body \<Rightarrow> doctor \<Rightarrow> doctor" where
  "updateDoctor_fields b doctor =
     (let d1 = assign_if (truthy (qualifications b))
                 (\<lambda>d. d\<lparr>d_qualifications := qualifications b\<rparr>) doctor;
          d2 = assign_if (truthy (specialties b))
                 (\<lambda>d. d\<lparr>d_specialties := specialties b\<rparr>) d1;
          d3 = assign_if (truthy (experience b))
                 (\<lambda>d. d\<lparr>d_experience := experience b\<rparr>) d2;
          d4 = assign_if (truthy (clinicDetails b))
                 (\<lambda>d. d\<lparr>d_clinicDetails := clinicDetails b\<rparr>) d3;
          d5 = assign_if (truthy (hospitalAffiliations b))
                 (\<lambda>d. d\<lparr>d_hospitalAffiliations := hospitalAffiliations b\<rparr>) d4;
          d6 = assign_if (truthy (consultationFee b))
                 (\<lambda>d. d\<lparr>d_consultationFee := consultationFee b\<rparr>) d5;
          d7 = assign_if (truthy (languages b))
                 (\<lambda>d. d\<lparr>d_languages := languages b\<rparr>) d6;
          d8 = assign_if (truthy (bio b))
                 (\<lambda>d. d\<lparr>d_bio := bio b\<rparr>) d7;
          d9 = assign_if (availability b \<noteq> None)
                 (\<lambda>d. d\<lparr>d_availability := the (availability b)\<rparr>) d8;
          d10 = assign_if (videoConsultation b \<noteq> JUndefined)
                  (\<lambda>d. d\<lparr>d_videoConsultation := videoConsultation b\<rparr>) d9
      in assign_if (acceptingNewPatients b \<noteq> JUndefined)
           (\<lambda>d. d\<lparr>d_acceptingNewPatients := acceptingNewPatients b\<rparr>) d10)"

definition updateDoctor :: "env \<Rightarrow> request \<Rightarrow> world \<Rightarrow> doctor response \<times> world" where
  "updateDoctor e req w =
     (let doctorId = params_id req
      in if e_fails e DoctorFind then (server_error, w)
         else case find (\<lambda>d. d_id d = doctorId) (doctors (db w)) of
           None \<Rightarrow> (respond 404 False ''Doctor not found'' None, w)
         | Some doctor \<Rightarrow>
             if d_user doctor \<noteq> user_id req \<and> user_role req \<noteq> ''admin''
             then (respond 403 False ''Not authorized to update this profile'' None, w)
             else (let doctor1 = updateDoctor_fields (req_body req) doctor
                   in case upload_documents e (files req) (d_verificationDocuments doctor1) w of
                        (None, w1) \<Rightarrow> (server_error, w1)
                      | (Some docs, w1) \<Rightarrow>
                          (let doctor2 = doctor1\<lparr>d_verificationDocuments := docs\<rparr>;
                               doctor3 = (if files req \<noteq> [] \<and> d_isVerified doctor2
                                          then doctor2\<lparr>d_isVerified := False\<rparr> else doctor2)
                           in if e_fails e DoctorSave then (server_error, w1)
                              else (respond 200 True ''Doctor profile updated successfully''
                                      (Some doctor3),
                                    w1\<lparr>db := save_doctor doctor3 (db w1)\<rparr>))))"

text \<open>The assignments of \<^verbatim>\<open>updateDoctorProfile\<close>, which has no \<^verbatim>\<open>availability\<close>.\<close>

definition updateDoctorProfile_fields :: "body \<Rightarrow> doctor \<Rightarrow> doctor" where
  "updateDoctorProfile_fields b doctor =
     (let d1 = assign_if (truthy (qualifications b))
                 (\<lambda>d. d\<lparr>d_qualifications := qualifications b\<rparr>) doctor;
          d2 = assign_if (truthy (specialties b))
                 (\<lambda>d. d\<lparr>d_specialties := specialties b\<rparr>) d1;
          d3 = assign_if (truthy (experience b))
                 (\<lambda>d. d\<lparr>d_experience := experience b\<rparr>) d2;
          d4 = assign_if (truthy (clinicDetails b))
                 (\<lambda>d. d\<lparr>d_clinicDetails := clinicDetails b\<rparr>) d3;
          d5 = assign_if (truthy (hospitalAffiliations b))
                 (\<lambda>d. d\<lparr>d_hospitalAffiliations := hospitalAffiliations b\<rparr>) d4;
          d6 = assign_if (truthy (consultationFee b))
                 (\<lambda>d. d\<lparr>d_consultationFee := consultationFee b\<rparr>) d5;
          d7 = assign_if (truthy (languages b))
                 (\<lambda>d. d\<lparr>d_languages := languages b\<rparr>) d6;
          d8 = assign_if (truthy (bio b))
                 (\<lambda>d. d\<lparr>d_bio := bio b\<rparr>) d7;
          d9 = assign_if (videoConsultation b \<noteq> JUndefined)
                 (\<lambda>d. d\<lparr>d_videoConsultation := videoConsultation b\<rparr>) d8
      in assign_if (acceptingNewPatients b \<noteq> JUndefined)
           (\<lambda>d. d\<lparr>d_acceptingNewPatients := acceptingNewPatients b\<rparr>) d9)"

definition updateDoctorProfile :: "env \<Rightarrow> request \<Rightarrow> world \<Rightarrow> doctor response \<times> world" where
  "updateDoctorProfile e req w =
     (let userId = user_id req
      in if e_fails e DoctorFind then (server_error, w)
         else case find (\<lambda>d. d_user d = userId) (doctors (db w)) of
           None \<Rightarrow> (respond 404 False ''Doctor profile not found'' None, w)
         | Some doctor \<Rightarrow>
             (let doctor1 = updateDoctorProfile_fields (req_body req) doctor
              in if e_fails e DoctorSave then (server_error, w)
                 else (respond 200 True ''Doctor profile updated successfully'' (Some doctor1),
                       w\<lparr>db := save_doctor doctor1 (db w)\<rparr>)))"

subsection \<open>A sample world\<close>

text \<open>
  Wednesday 14 February 2024. Doctor 10 (user 1) works on Mondays, not on Tuesdays, has
  one verification document, a review by patient 20 and a scheduled appointment on
  Monday 19 February; doctor 11 (user 4) has only a past appointment that was missed.
\<close>

definition sample_now :: timestamp where
  "sample_now = \<lparr>t_year = 2024, t_month = 1, t_day = 13, t_ms = 36000000\<rparr>"

definition sample_doctor :: doctor where
  "sample_doctor =
     \<lparr>d_id = 10, d_user = 1,
      d_qualifications = JArr [JStr ''MBBS''], d_specialties = JArr [JStr ''Cardiology''],
      d_experience = JNum 12, d_registrationNumber = ''REG-1'',
      d_registrationCouncil = JStr ''MCI'', d_clinicDetails = JObj [(''city'', JStr ''Pune'')],
      d_hospitalAffiliations = JArr [], d_consultationFee = JNum 500,
      d_languages = JArr [JStr ''en''], d_bio = JStr ''Cardiologist'',
      d_videoConsultation = JBool True, d_acceptingNewPatients = JBool True,
      d_verificationDocuments =
        [\<lparr>vd_name = ''licence.pdf'', vd_url = ''files/licence.pdf'', vd_verified = True\<rparr>],
      d_isVerified = True,
      d_availability =
        [\<lparr>day = ''Monday'', isAvailable = True,
          slots = [\<lparr>startTime = ''09:00'', endTime = ''09:30''\<rparr>,
                   \<lparr>startTime = ''09:30'', endTime = ''10:00''\<rparr>]\<rparr>,
         \<lparr>day = ''Tuesday'', isAvailable = False,
          slots = [\<lparr>startTime = ''09:00'', endTime = ''09:30''\<rparr>]\<rparr>],
      d_reviews = [\<lparr>r_patient = 20, r_rating = 3, r_comment = ''fine'', r_date = 1000\<rparr>],
      d_averageRating = 3\<rparr>"

definition sample_doctor2 :: doctor where
  "sample_doctor2 =
     sample_doctor\<lparr>d_id := 11, d_user := 4, d_registrationNumber := ''REG-2'',
       d_reviews := [], d_averageRating := 0\<rparr>"

definition sample_appointments :: "appointment list" where
  "sample_appointments =
     [\<lparr>a_doctor = 10, a_patient = 20,
       a_appointmentDate = \<lparr>t_year = 2024, t_month = 1, t_day = 18, t_ms = 0\<rparr>,
       a_appointmentTime = ''09:00'', a_status = ''scheduled'', a_cancellationReason = [],
       a_createdAt = \<lparr>t_year = 2024, t_month = 1, t_day = 2, t_ms = 500\<rparr>\<rparr>,
      \<lparr>a_doctor = 10, a_patient = 20,
       a_appointmentDate = \<lparr>t_year = 2023, t_month = 10, t_day = 5, t_ms = 0\<rparr>,
       a_appointmentTime = ''09:30'', a_status = ''completed'', a_cancellationReason = [],
       a_createdAt = \<lparr>t_year = 2023, t_month = 10, t_day = 0, t_ms = 0\<rparr>\<rparr>,
      \<lparr>a_doctor = 11, a_patient = 20,
       a_appointmentDate = \<lparr>t_year = 2024, t_month = 0, t_day = 9, t_ms = 0\<rparr>,
       a_appointmentTime = ''11:30'', a_status = ''scheduled'', a_cancellationReason = [],
       a_createdAt = \<lparr>t_year = 2024, t_month = 0, t_day = 3, t_ms = 0\<rparr>\<rparr>]"

definition sample_world :: world where
  "sample_world =
     \<lparr>db = \<lparr>doctors = [sample_doctor, sample_doctor2],
             users = [\<lparr>u_id = 1, u_role = ''doctor''\<rparr>, \<lparr>u_id = 2, u_role = ''user''\<rparr>,
                      \<lparr>u_id = 3, u_role = ''admin''\<rparr>, \<lparr>u_id = 4, u_role = ''doctor''\<rparr>,
                      \<lparr>u_id = 5, u_role = ''user''\<rparr>],
             patients = [\<lparr>p_id = 20, p_user = 2\<rparr>, \<lparr>p_id = 21, p_user = 5\<rparr>],
             appointments = sample_appointments\<rparr>,
      uploadFile_calls = [], deleteFile_calls = []\<rparr>"

definition sample_env :: "(call \<Rightarrow> bool) \<Rightarrow> env" where
  "sample_env f =
     \<lparr>e_fails = f, e_now = sample_now, e_Date_now = 2000,
      e_uploadedUrl = (\<lambda>name. ''files/'' @ name), e_newId = 12\<rparr>"

definition sample_body :: body where
  "sample_body =
     \<lparr>qualifications = JUndefined, specialties = JUndefined, experience = JUndefined,
      registrationNumber = ''REG-1'', registrationCouncil = JUndefined,
      clinicDetails = JUndefined, hospitalAffiliations = JUndefined,
      consultationFee = JNum 0, languages = JUndefined, bio = JStr [],
      availability = None, videoConsultation = JBool False,
      acceptingNewPatients = JUndefined, rating = 5, comment = ''excellent''\<rparr>"

definition sample_request :: "oid \<Rightarrow> string \<Rightarrow> oid \<Rightarrow> request" where
  "sample_request uid role pid =
     \<lparr>user_id = uid, user_role = role, params_id = pid, query_date = None,
      req_body = sample_body, files = [''degree.pdf'']\<rparr>"

subsection \<open>The update rule in the specification's words\<close>

text \<open>
  A field of the request that is truthy is written and a falsy one keeps the stored
  value; \<^verbatim>\<open>videoConsultation\<close> and \<^verbatim>\<open>acceptingNewPatients\<close> are written whenever they are not
  \<^verbatim>\<open>undefined\<close>.
\<close>

definition written_fields :: "body \<Rightarrow> doctor \<Rightarrow> doctor \<Rightarrow> bool" where
  "written_fields b old new =
     (d_qualifications new
        = (if truthy (qualifications b) then qualifications b else d_qualifications old)
      \<and> d_specialties new
          = (if truthy (specialties b) then specialties b else d_specialties old)
      \<and> d_experience new
          = (if truthy (experience b) then experience b else d_experience old)
      \<and> d_clinicDetails new
          = (if truthy (clinicDetails b) then clinicDetails b else d_clinicDetails old)
      \<and> d_hospitalAffiliations new
          = (if truthy (hospitalAffiliations b) then hospitalAffiliations b
             else d_hospitalAffiliations old)
      \<and> d_consultationFee new
          = (if truthy (consultationFee b) then consultationFee b else d_consultationFee old)
      \<and> d_languages new
          = (if truthy (languages b) then languages b else d_languages old)
      \<and> d_bio new = (if truthy (bio b) then bio b else d_bio old)
      \<and> d_videoConsultation new
          = (if videoConsultation b = JUndefined then d_videoConsultation old
             else videoConsultation b)
      \<and> d_acceptingNewPatients new
          = (if acceptingNewPatients b = JUndefined then d_acceptingNewPatients old
             else acceptingNewPatients b))"

subsection \<open>Monthly statistics: the six-month window\<close>

lemma pm_a:
  fixes k :: int
  assumes "k mod 12 = 0"
  shows "(k - 1) div 12 = k div 12 - 1 \<and> (k - 1) mod 12 = 11"
proof -
  define q where "q = k div 12"
  have "k = 12 * q + k mod 12" by (simp add: q_def)
  with assms have e: "k - 1 = 12 * (q - 1) + 11" by simp
  have "(k - 1) div 12 = q - 1" by (rule int_div_pos_eq [OF e]) simp_all
  moreover have "(k - 1) mod 12 = 11" by (rule int_mod_pos_eq [OF e]) simp_all
  ultimately show ?thesis by (simp add: q_def)
qed

lemma pm_b:
  fixes k :: int
  assumes "k mod 12 \<noteq> 0"
  shows "(k - 1) div 12 = k div 12 \<and> (k - 1) mod 12 = k mod 12 - 1"
proof -
  define q where "q = k div 12"
  define r where "r = k mod 12"
  have r: "0 \<le> r" "r < 12" "r \<noteq> 0" using assms by (simp_all add: r_def)
  have "k = 12 * q + r" by (simp add: q_def r_def)
  then have e: "k - 1 = 12 * q + (r - 1)" by simp
  have "(k - 1) div 12 = q" using r by (intro int_div_pos_eq [OF e]) simp_all
  moreover have "(k - 1) mod 12 = r - 1" using r by (intro int_mod_pos_eq [OF e]) simp_all
  ultimately show ?thesis by (simp add: q_def r_def)
qed

lemma prev_month_funpow:
  "m < 12 \<Longrightarrow> (prev_month ^^ i) (y, m) =
     (y + (int m - int i) div 12, nat ((int m - int i) mod 12))"
proof (induction i)
  case 0
  then show ?case by simp
next
  case (Suc i)
  define k where "k = int m - int i"
  have k: "int m - int (Suc i) = k - 1" by (simp add: k_def)
  have c: "0 \<le> k mod 12" by simp
  have ih: "(prev_month ^^ i) (y, m) = (y + k div 12, nat (k mod 12))"
    using Suc by (simp add: k_def)
  show ?case
  proof (cases "k mod 12 = 0")
    case True
    with pm_a [OF True] show ?thesis unfolding k by (simp add: ih)
  next
    case False
    then have "nat (k mod 12) \<noteq> 0" using c by simp
    moreover have "nat (k mod 12) - 1 = nat (k mod 12 - 1)" by (simp add: nat_diff_distrib')
    ultimately show ?thesis using pm_b [OF False] unfolding k by (simp add: ih)
  qed
qed

lemma div_mod_lex_mono:
  fixes k k' :: int
  assumes "k \<le> k'"
  shows "k div 12 < k' div 12 \<or> (k div 12 = k' div 12 \<and> k mod 12 \<le> k' mod 12)"
proof -
  have "k div 12 \<le> k' div 12" using assms by (simp add: zdiv_mono1)
  moreover have "k = 12 * (k div 12) + k mod 12" "k' = 12 * (k' div 12) + k' mod 12" by simp_all
  ultimately show ?thesis using assms by linarith
qed

lemma ts_le_Date_first:
  assumes "t_year c = y + k' div 12" "t_month c = nat (k' mod 12)" "k \<le> k'" "100 \<le> y"
  shows "ts_le (Date_first y k) c"
proof -
  have lex: "k div 12 < k' div 12 \<or> (k div 12 = k' div 12 \<and> k mod 12 \<le> k' mod 12)"
    using assms(3) by (rule div_mod_lex_mono)
  have y: "t_year (Date_first y k) = y + k div 12" and m: "t_month (Date_first y k) = nat (k mod 12)"
    and d: "t_day (Date_first y k) = 0" and s: "t_ms (Date_first y k) = 0"
    using assms(4) by (simp_all add: Date_first_def)
  have nn: "0 \<le> k mod 12" by simp
  from lex show ?thesis
  proof
    assume "k div 12 < k' div 12"
    then show ?thesis by (simp add: ts_le_def y assms(1))
  next
    assume h: "k div 12 = k' div 12 \<and> k mod 12 \<le> k' mod 12"
    show ?thesis
    proof (cases "k mod 12 = k' mod 12")
      case True
      with h show ?thesis by (auto simp add: ts_le_def y m d s assms(1,2))
    next
      case False
      with h nn have "nat (k mod 12) < nat (k' mod 12)" by (intro iffD2 [OF nat_less_eq_zless]) simp_all
      with h show ?thesis by (simp add: ts_le_def y m assms(1,2))
    qed
  qed
qed

lemma find_SomeD: "find P xs = Some x \<Longrightarrow> x \<in> set xs \<and> P x"
  by (induction xs) (auto split: if_splits)

lemma find_bucket_count:
  fixes keys :: "(nat \<times> int) list"
  defines "mk \<equiv> (\<lambda>k. \<lparr>b_month = fst k, b_year = snd k, b_count = count_list keys k\<rparr>)"
  shows "(case find (\<lambda>a. b_month a = mm \<and> b_year a = yy)
                 (sort_key (\<lambda>b. (b_year b, b_month b)) (map mk (remdups keys))) of
            Some f \<Rightarrow> b_count f | None \<Rightarrow> 0) = count_list keys (mm, yy)"
proof (cases "find (\<lambda>a. b_month a = mm \<and> b_year a = yy)
                 (sort_key (\<lambda>b. (b_year b, b_month b)) (map mk (remdups keys)))")
  case None
  then have "\<forall>x \<in> set (map mk (remdups keys)). \<not> (b_month x = mm \<and> b_year x = yy)"
    by (simp add: find_None_iff)
  then have "\<not> (b_month (mk (mm, yy)) = mm \<and> b_year (mk (mm, yy)) = yy) \<or> (mm, yy) \<notin> set keys"
    by auto
  then have "(mm, yy) \<notin> set keys"
    by (simp add: mk_def)
  with None show ?thesis by (simp add: count_list_0_iff)
next
  case (Some f)
  then have "f \<in> set (sort_key (\<lambda>b. (b_year b, b_month b)) (map mk (remdups keys)))"
    and p: "b_month f = mm \<and> b_year f = yy"
    by (auto dest: find_SomeD)
  then have "f \<in> mk ` set keys" by simp
  then obtain k where "f = mk k" by auto
  with p have "f = mk (mm, yy)" by (cases k) (simp add: mk_def)
  with Some show ?thesis by (simp add: mk_def)
qed


lemma fold_unshift: "fold (\<lambda>i results. g i # results) xs acc = rev (map g xs) @ acc"
  by (induction xs arbitrary: acc) simp_all

lemma count_list_map_filter: "count_list (map f xs) k = length (filter (\<lambda>x. f x = k) xs)"
  by (induction xs) simp_all

lemma toUTC_zero: "t_ms d < 86400000 \<Longrightarrow> toUTC 0 d = d"
  by (simp add: toUTC_def)

lemma aggregate_monthly_utc:
  assumes "\<forall>a \<in> set appts. t_ms (a_createdAt a) < 86400000"
  shows "aggregate_monthly 0 doctorId s appts
         = sort_key (\<lambda>b. (b_year b, b_month b))
             (map (\<lambda>k. \<lparr>b_month = fst k, b_year = snd k,
                        b_count = count_list
                          (map (\<lambda>a. (t_month (a_createdAt a) + 1, t_year (a_createdAt a)))
                             (filter (\<lambda>a. a_doctor a = doctorId \<and> ts_le s (a_createdAt a)) appts))
                          k\<rparr>)
                (remdups
                   (map (\<lambda>a. (t_month (a_createdAt a) + 1, t_year (a_createdAt a)))
                      (filter (\<lambda>a. a_doctor a = doctorId \<and> ts_le s (a_createdAt a)) appts))))"
proof -
  have eq: "map (\<lambda>a. (t_month (toUTC 0 (a_createdAt a)) + 1, t_year (toUTC 0 (a_createdAt a))))
          (filter (\<lambda>a. a_doctor a = doctorId \<and> ts_le s (a_createdAt a)) appts)
        = map (\<lambda>a. (t_month (a_createdAt a) + 1, t_year (a_createdAt a)))
            (filter (\<lambda>a. a_doctor a = doctorId \<and> ts_le s (a_createdAt a)) appts)"
    using assms by (intro map_cong refl) (simp add: toUTC_zero)
  show ?thesis unfolding aggregate_monthly_def Let_def eq ..
qed

lemma stats_entry_contract:
  assumes y: "100 \<le> t_year now" and m: "t_month now < 12" and i: "i \<le> 5"
    and wf: "\<forall>a \<in> set appts. t_ms (a_createdAt a) < 86400000"
  shows "stats_entry now
           (aggregate_monthly 0 doctorId
              (Date_first (getFullYear now) (int (getMonth now) - 5)) appts) i
         = (let ym = (prev_month ^^ i) (t_year now, t_month now)
            in \<lparr>month = months ! snd ym, year = fst ym,
                count = length (filter (created_in doctorId ym) appts)\<rparr>)"
proof -
  define k' where "k' = int (t_month now) - int i"
  define k where "k = int (t_month now) - 5"
  define yy where "yy = t_year now + k' div 12"
  define mm where "mm = nat (k' mod 12)"
  have kk: "k \<le> k'" using i by (simp add: k_def k'_def)
  have win: "(prev_month ^^ i) (t_year now, t_month now) = (yy, mm)"
    using m by (simp add: prev_month_funpow yy_def mm_def k'_def)
  have dy: "t_year (Date_first (t_year now) k') = yy"
    and dm: "t_month (Date_first (t_year now) k') = mm"
    using y by (simp_all add: Date_first_def yy_def mm_def)
  have le: "ts_le (Date_first (t_year now) k) (a_createdAt a)"
    if "t_year (a_createdAt a) = yy" "t_month (a_createdAt a) = mm" for a
    using that kk y unfolding yy_def mm_def by (intro ts_le_Date_first [where k' = k']) simp_all
  have flt: "filter (\<lambda>a. (t_month (a_createdAt a) + 1, t_year (a_createdAt a)) = (mm + 1, yy))
               (filter (\<lambda>a. a_doctor a = doctorId \<and>
                    ts_le (Date_first (t_year now) k) (a_createdAt a)) appts)
             = filter (created_in doctorId (yy, mm)) appts"
    unfolding filter_filter by (rule filter_cong) (auto simp: created_in_def le)
  show ?thesis
    unfolding stats_entry_def aggregate_monthly_utc [OF wf] Let_def getFullYear_def getMonth_def
      k_def[symmetric] k'_def[symmetric] dy dm win find_bucket_count
    unfolding count_list_map_filter flt
    by simp
qed

text \<open>
  On a server whose clock is UTC the two readings agree, and the statistics are the six
  entries of the contract (the clock reads a year from 100 on, where
  \<^verbatim>\<open>new Date(year, month, 1)\<close> takes the year as it is).
\<close>

lemma monthly_stats_on_utc_server:
  assumes "100 \<le> t_year now" and "t_month now < 12" and "\<not> fails AppointmentAggregate"
    and "\<forall>a \<in> set appts. t_ms (a_createdAt a) < 86400000"
  shows "getMonthlyAppointmentStats fails 0 now doctorId appts
           = Some (monthly_contract now doctorId appts)
         \<and> length (monthly_contract now doctorId appts) = 6"
proof -
  let ?bs = "aggregate_monthly 0 doctorId
               (Date_first (getFullYear now) (int (getMonth now) - 5)) appts"
  have "map (stats_entry now ?bs) [0..<6]
          = map (\<lambda>i. let ym = (prev_month ^^ i) (t_year now, t_month now)
                      in \<lparr>month = months ! snd ym, year = fst ym,
                          count = length (filter (created_in doctorId ym) appts)\<rparr>) [0..<6]"
    by (rule map_cong [OF refl]) (simp add: stats_entry_contract [OF assms(1,2) _ assms(4)])
  then have "rev (map (stats_entry now ?bs) [0..<6]) = monthly_contract now doctorId appts"
    by (simp add: monthly_contract_def months_window_def rev_map Let_def comp_def)
  moreover have "length (monthly_contract now doctorId appts) = 6"
    by (simp add: monthly_contract_def months_window_def)
  ultimately show ?thesis
    using assms(3) by (simp add: getMonthlyAppointmentStats_def Let_def fold_unshift)
qed

text \<open>
  C1. The window is laid out in the server's time zone and the groups are keyed by the
  UTC month, so on a server that is not on UTC an appointment created close to the turn
  of a month is counted under the neighbouring month. On a server five and a half
  hours ahead of UTC, on 14 February 2024, doctor 7's only appointment, created on 1
  February at 00:30 local time (31 January, 19:00 UTC), comes back under January with
  February at 0, where the contract has it under February.
\<close>

theorem monthly_stats_utc_month_mismatch:
  "getMonthlyAppointmentStats (\<lambda>c. False) 330
     \<lparr>t_year = 2024, t_month = 1, t_day = 13, t_ms = 36000000\<rparr> 7
     [\<lparr>a_doctor = 7, a_patient = 1,
       a_appointmentDate = \<lparr>t_year = 2024, t_month = 1, t_day = 20, t_ms = 0\<rparr>,
       a_appointmentTime = ''10:00'', a_status = ''scheduled'', a_cancellationReason = [],
       a_createdAt = \<lparr>t_year = 2024, t_month = 1, t_day = 0, t_ms = 1800000\<rparr>\<rparr>]
   = Some [\<lparr>month = ''Sep'', year = 2023, count = 0\<rparr>,
           \<lparr>month = ''Oct'', year = 2023, count = 0\<rparr>,
           \<lparr>month = ''Nov'', year = 2023, count = 0\<rparr>,
           \<lparr>month = ''Dec'', year = 2023, count = 0\<rparr>,
           \<lparr>month = ''Jan'', year = 2024, count = 1\<rparr>,
           \<lparr>month = ''Feb'', year = 2024, count = 0\<rparr>]
   \<and> monthly_contract \<lparr>t_year = 2024, t_month = 1, t_day = 13, t_ms = 36000000\<rparr> 7
       [\<lparr>a_doctor = 7, a_patient = 1,
         a_appointmentDate = \<lparr>t_year = 2024, t_month = 1, t_day = 20, t_ms = 0\<rparr>,
         a_appointmentTime = ''10:00'', a_status = ''scheduled'', a_cancellationReason = [],
         a_createdAt = \<lparr>t_year = 2024, t_month = 1, t_day = 0, t_ms = 1800000\<rparr>\<rparr>]
     = [\<lparr>month = ''Sep'', year = 2023, count = 0\<rparr>,
        \<lparr>month = ''Oct'', year = 2023, count = 0\<rparr>,
        \<lparr>month = ''Nov'', year = 2023, count = 0\<rparr>,
        \<lparr>month = ''Dec'', year = 2023, count = 0\<rparr>,
        \<lparr>month = ''Jan'', year = 2024, count = 0\<rparr>,
        \<lparr>month = ''Feb'', year = 2024, count = 1\<rparr>]"
proof -
  let ?now = "\<lparr>t_year = 2024, t_month = 1, t_day = 13, t_ms = 36000000\<rparr>"
  let ?appt = "\<lparr>a_doctor = 7, a_patient = 1,
       a_appointmentDate = \<lparr>t_year = 2024, t_month = 1, t_day = 20, t_ms = 0\<rparr>,
       a_appointmentTime = ''10:00'', a_status = ''scheduled'', a_cancellationReason = [],
       a_createdAt = \<lparr>t_year = 2024, t_month = 1, t_day = 0, t_ms = 1800000\<rparr>\<rparr>"
  have utc: "toUTC 330 \<lparr>t_year = 2024, t_month = 1, t_day = 0, t_ms = 1800000\<rparr>
               = \<lparr>t_year = 2024, t_month = 0, t_day = 30, t_ms = 68400000\<rparr>"
    by (simp add: toUTC_def prev_day_def days_in_month_def)
  have agg: "aggregate_monthly 330 7 \<lparr>t_year = 2023, t_month = 8, t_day = 0, t_ms = 0\<rparr> [?appt]
               = [\<lparr>b_month = 1, b_year = 2024, b_count = 1\<rparr>]"
    by (simp add: aggregate_monthly_def utc [simplified] ts_le_def)
  have six: "[0..<6] = [0, 1, 2, 3, 4, 5 :: nat]"
    by (simp add: upt_rec [of _ "numeral n" for n])
  have code: "getMonthlyAppointmentStats (\<lambda>c. False) 330 ?now 7 [?appt]
     = Some [\<lparr>month = ''Sep'', year = 2023, count = 0\<rparr>,
           \<lparr>month = ''Oct'', year = 2023, count = 0\<rparr>,
           \<lparr>month = ''Nov'', year = 2023, count = 0\<rparr>,
           \<lparr>month = ''Dec'', year = 2023, count = 0\<rparr>,
           \<lparr>month = ''Jan'', year = 2024, count = 1\<rparr>,
           \<lparr>month = ''Feb'', year = 2024, count = 0\<rparr>]"
    by (simp add: getMonthlyAppointmentStats_def getFullYear_def getMonth_def Date_first_def
          agg [simplified] six stats_entry_def months_def Let_def)
  have win: "months_window (2024, 1)
               = [(2023, 8), (2023, 9), (2023, 10), (2023, 11), (2024, 0), (2024, 1)]"
    by (simp add: months_window_def six eval_nat_numeral)
  have contract: "monthly_contract ?now 7 [?appt]
     = [\<lparr>month = ''Sep'', year = 2023, count = 0\<rparr>,
        \<lparr>month = ''Oct'', year = 2023, count = 0\<rparr>,
        \<lparr>month = ''Nov'', year = 2023, count = 0\<rparr>,
        \<lparr>month = ''Dec'', year = 2023, count = 0\<rparr>,
        \<lparr>month = ''Jan'', year = 2024, count = 0\<rparr>,
        \<lparr>month = ''Feb'', year = 2024, count = 1\<rparr>]"
    by (simp add: monthly_contract_def win [simplified] created_in_def months_def)
  from code contract show ?thesis by (rule conjI)
qed

subsection \<open>Evaluating the sample world\<close>

lemmas sample_defs = sample_world_def sample_doctor_def sample_doctor2_def
  sample_appointments_def sample_env_def sample_now_def sample_body_def sample_request_def

subsection \<open>The file loops leave the database alone\<close>

lemma upload_documents_db: "db (snd (upload_documents e fs docs w)) = db w"
  by (induction fs arbitrary: docs w) (simp_all add: Let_def)

lemma delete_documents_db: "db (snd (delete_documents e docs w)) = db w"
  by (induction docs arbitrary: w) (simp_all add: Let_def)

lemma delete_documents_caught_db: "db (delete_documents_caught e docs w) = db w"
  by (induction docs arbitrary: w) (simp_all add: Let_def)

lemma delete_documents_caught_uploads:
  "uploadFile_calls (delete_documents_caught e docs w) = uploadFile_calls w"
  by (induction docs arbitrary: w) (simp_all add: Let_def)

lemma delete_documents_caught_calls:
  "deleteFile_calls (delete_documents_caught e docs w)
     = deleteFile_calls w @ filter (\<lambda>u. u \<noteq> []) (map vd_url docs)"
  by (induction docs arbitrary: w) (simp_all add: Let_def)

subsection \<open>Doctor creation with a registration number on file\<close>

text \<open>
  C7. When some doctor profile already has the registration number of the request,
  \<^verbatim>\<open>createDoctor\<close> fails and leaves the whole world as it was: no doctor profile is
  created, no file is uploaded and no user is changed. The response is the 400 of the
  registration check unless the lookup itself throws, which gives the 500 of the
  \<^verbatim>\<open>catch\<close> block.
\<close>

theorem createDoctor_duplicate_registration_rejected:
  assumes "\<exists>d \<in> set (doctors (db w)). d_registrationNumber d = registrationNumber (req_body req)"
  shows "snd (createDoctor e req w) = w
         \<and> \<not> success (fst (createDoctor e req w))
         \<and> (\<not> e_fails e DoctorFind \<longrightarrow>
              fst (createDoctor e req w)
                = respond 400 False ''Doctor with this registration number already exists'' None)"
proof -
  from assms obtain existing where
    "find (\<lambda>d. d_registrationNumber d = registrationNumber (req_body req)) (doctors (db w))
       = Some existing"
    by (cases "find (\<lambda>d. d_registrationNumber d = registrationNumber (req_body req))
                 (doctors (db w))") (auto simp: find_None_iff)
  then show ?thesis
    by (simp add: createDoctor_def createDoctor_try_def catch_finally_def startTransaction_def
          endSession_def abortTransaction_def respond_def)
qed

theorem createDoctor_duplicate_registration_rejected_witness:
  "createDoctor (sample_env (\<lambda>c. False)) (sample_request 4 ''doctor'' 0) sample_world
     = (respond 400 False ''Doctor with this registration number already exists'' None,
        sample_world)"
  using createDoctor_duplicate_registration_rejected
    [of sample_world "sample_request 4 ''doctor'' 0" "sample_env (\<lambda>c. False)"]
  by (simp add: sample_defs prod_eq_iff)

subsection \<open>Self-deletion of a doctor account\<close>

text \<open>
  C6. When the doctor of the authenticated user has an appointment with status
  \<^verbatim>\<open>scheduled\<close> dated now or later, \<^verbatim>\<open>deleteDoctor\<close> fails and leaves the whole world as it
  was: no appointment, doctor profile, file or user is changed. The response is the 400
  of the check unless one of the two lookups throws (500).
\<close>

theorem deleteDoctor_active_rejected:
  assumes "find (\<lambda>d. d_user d = user_id req) (doctors (db w)) = Some doctor"
    and "\<exists>a \<in> set (appointments (db w)). active_appointment e (d_id doctor) a"
  shows "snd (deleteDoctor e req w) = w
         \<and> \<not> success (fst (deleteDoctor e req w))
         \<and> (\<not> e_fails e DoctorFind \<and> \<not> e_fails e AppointmentCount \<longrightarrow>
              fst (deleteDoctor e req w)
                = respond 400 False
                    ''Cannot delete account with active appointments. Please reschedule or cancel them first.''
                    None)"
proof -
  from assms(2) have "filter (active_appointment e (d_id doctor)) (appointments (db w)) \<noteq> []"
    by (simp add: filter_empty_conv)
  with assms(1) show ?thesis
    by (simp add: deleteDoctor_def deleteDoctor_try_def catch_finally_def startTransaction_def
          endSession_def abortTransaction_def respond_def Let_def)
qed

theorem deleteDoctor_active_rejected_witness:
  "deleteDoctor (sample_env (\<lambda>c. False)) (sample_request 1 ''doctor'' 0) sample_world
     = (respond 400 False
          ''Cannot delete account with active appointments. Please reschedule or cancel them first.''
          None,
        sample_world)"
  using deleteDoctor_active_rejected
    [of "sample_request 1 ''doctor'' 0" sample_world sample_doctor "sample_env (\<lambda>c. False)"]
  by (simp add: sample_defs prod_eq_iff active_appointment_def ts_le_def)

text \<open>
  C4. When the doctor of the authenticated user has no scheduled appointment dated now or
  later and the database answers every call, \<^verbatim>\<open>deleteDoctor\<close> succeeds, and afterwards:
  every appointment of the doctor that was not \<^verbatim>\<open>completed\<close> is \<^verbatim>\<open>cancelled\<close> with the reason
  \<^verbatim>\<open>Doctor no longer available\<close> and the other appointments are as before; no doctor
  profile with the doctor's identifier is left; \<^verbatim>\<open>deleteFile\<close> has been called with the URL
  of every verification document that has one (whether or not the call threw); and every
  user record of the authenticated user has the role \<^verbatim>\<open>user\<close>, the other users being as
  before.
\<close>

theorem deleteDoctor_without_active_appointments:
  assumes found: "find (\<lambda>d. d_user d = user_id req) (doctors (db w)) = Some doctor"
    and inactive: "\<forall>a \<in> set (appointments (db w)). \<not> active_appointment e (d_id doctor) a"
    and answers: "\<not> e_fails e DoctorFind" "\<not> e_fails e AppointmentCount"
      "\<not> e_fails e AppointmentUpdateMany" "\<not> e_fails e DoctorDelete"
      "\<not> e_fails e UserFind" "\<not> e_fails e UserSave" "\<not> e_fails e CommitTransaction"
  shows "fst (deleteDoctor e req w)
           = respond 200 True ''Doctor account deleted successfully'' None
         \<and> appointments (db (snd (deleteDoctor e req w)))
             = map (\<lambda>a. if a_doctor a = d_id doctor \<and> a_status a \<noteq> ''completed''
                         then a\<lparr>a_status := ''cancelled'',
                                a_cancellationReason := ''Doctor no longer available''\<rparr>
                         else a) (appointments (db w))
         \<and> doctors (db (snd (deleteDoctor e req w)))
             = filter (\<lambda>d. d_id d \<noteq> d_id doctor) (doctors (db w))
         \<and> deleteFile_calls (snd (deleteDoctor e req w))
             = deleteFile_calls w
               @ filter (\<lambda>u. u \<noteq> []) (map vd_url (d_verificationDocuments doctor))
         \<and> map u_id (users (db (snd (deleteDoctor e req w)))) = map u_id (users (db w))
         \<and> (\<forall>u \<in> set (users (db (snd (deleteDoctor e req w)))).
               if u_id u = user_id req then u_role u = ''user'' else u \<in> set (users (db w)))"
proof -
  have none: "filter (active_appointment e (d_id doctor)) (appointments (db w)) = []"
    using inactive by (simp add: filter_empty_conv)
  show ?thesis
  proof (cases "find (\<lambda>u. u_id u = user_id req) (users (db w))")
    case None
    then have nouser: "\<forall>u \<in> set (users (db w)). u_id u \<noteq> user_id req"
      by (simp add: find_None_iff)
    have "deleteDoctor e req w
            = (respond 200 True ''Doctor account deleted successfully'' None,
               (delete_documents_caught e (d_verificationDocuments doctor) w)
                 \<lparr>db := findByIdAndDelete (d_id doctor) (cancel_appointments (d_id doctor) (db w))\<rparr>)"
      using found none answers None
      by (simp add: deleteDoctor_def deleteDoctor_try_def catch_finally_def startTransaction_def
            endSession_def Let_def session_write_def commitTransaction_def
            delete_documents_caught_db)
    then show ?thesis using nouser
      by (simp add: findByIdAndDelete_def cancel_appointments_def updateMany_def
            delete_documents_caught_calls)
  next
    case (Some user)
    then have uid: "u_id user = user_id req"
      by (auto simp: find_Some_iff)
    have "deleteDoctor e req w
            = (respond 200 True ''Doctor account deleted successfully'' None,
               (delete_documents_caught e (d_verificationDocuments doctor) w)
                 \<lparr>db := save_user (user\<lparr>u_role := ''user''\<rparr>)
                          (findByIdAndDelete (d_id doctor)
                             (cancel_appointments (d_id doctor) (db w)))\<rparr>)"
      using found none answers Some
      by (simp add: deleteDoctor_def deleteDoctor_try_def catch_finally_def startTransaction_def
            endSession_def Let_def session_write_def commitTransaction_def
            delete_documents_caught_db)
    then show ?thesis using uid
      by (auto simp add: findByIdAndDelete_def cancel_appointments_def updateMany_def
            save_user_def delete_documents_caught_calls comp_def)
  qed
qed

theorem deleteDoctor_without_active_appointments_witness:
  "fst (deleteDoctor (sample_env (\<lambda>c. c = DeleteFile ''files/licence.pdf''))
          (sample_request 4 ''doctor'' 0) sample_world)
     = respond 200 True ''Doctor account deleted successfully'' None
   \<and> map (\<lambda>a. (a_doctor a, a_status a, a_cancellationReason a))
        (appointments (db (snd (deleteDoctor
           (sample_env (\<lambda>c. c = DeleteFile ''files/licence.pdf''))
           (sample_request 4 ''doctor'' 0) sample_world))))
     = [(10, ''scheduled'', []), (10, ''completed'', []),
        (11, ''cancelled'', ''Doctor no longer available'')]
   \<and> map d_id (doctors (db (snd (deleteDoctor
           (sample_env (\<lambda>c. c = DeleteFile ''files/licence.pdf''))
           (sample_request 4 ''doctor'' 0) sample_world)))) = [10]
   \<and> deleteFile_calls (snd (deleteDoctor
           (sample_env (\<lambda>c. c = DeleteFile ''files/licence.pdf''))
           (sample_request 4 ''doctor'' 0) sample_world)) = [''files/licence.pdf'']"
  using deleteDoctor_without_active_appointments
    [of "sample_request 4 ''doctor'' 0" sample_world sample_doctor2
        "sample_env (\<lambda>c. c = DeleteFile ''files/licence.pdf'')"]
  by (simp add: sample_defs active_appointment_def ts_le_def)

subsection \<open>Transactions: a failed handler writes nothing\<close>

lemma createDoctor_try_db:
  "db (rw (snd (createDoctor_try e req r))) = db (rw r)
   \<or> (\<exists>resp. fst (createDoctor_try e req r) = Return resp \<and> success resp)"
  by (simp add: createDoctor_try_def Let_def respond_def session_write_def case_prod_beta
        upload_documents_db split: option.split)

lemma deleteDoctorByAdmin_try_db:
  "db (rw (snd (deleteDoctorByAdmin_try e req r))) = db (rw r)
   \<or> (\<exists>resp. fst (deleteDoctorByAdmin_try e req r) = Return resp \<and> success resp)"
  by (simp add: deleteDoctorByAdmin_try_def Let_def respond_def session_write_def
        case_prod_beta delete_documents_db split: option.split bool.split)

lemma deleteDoctor_try_db:
  "db (rw (snd (deleteDoctor_try e req r))) = db (rw r)
   \<or> (\<exists>resp. fst (deleteDoctor_try e req r) = Return resp \<and> success resp)"
  by (simp add: deleteDoctor_try_def Let_def respond_def session_write_def
        delete_documents_caught_db split: option.split)

lemma catch_finally_atomic:
  assumes "db (rw (snd x)) = base \<or> (\<exists>resp. fst x = Return resp \<and> success resp)"
    and "\<not> success (fst (catch_finally x))"
  shows "db (snd (catch_finally x)) = base"
  using assms
  by (cases "fst x") (auto simp: catch_finally_def endSession_def abortTransaction_def)

lemma createDoctor_committed:
  "\<not> success (fst (createDoctor e req w))
   \<or> (\<exists>user docs.
         find (\<lambda>u. u_id u = user_id req) (users (db w)) = Some user
         \<and> fst (upload_documents e (files req) [] w) = Some docs
         \<and> db (snd (createDoctor e req w))
             = (if u_role user \<noteq> ''doctor''
                then save_user (user\<lparr>u_role := ''doctor''\<rparr>)
                       (insert_doctor (new_Doctor e (user_id req) (req_body req) docs) (db w))
                else insert_doctor (new_Doctor e (user_id req) (req_body req) docs) (db w)))"
  by (simp add: createDoctor_def createDoctor_try_def catch_finally_def startTransaction_def
        endSession_def abortTransaction_def commitTransaction_def session_write_def
        respond_def Let_def case_prod_beta upload_documents_db split: option.split)

lemma deleteDoctorByAdmin_committed:
  "\<not> success (fst (deleteDoctorByAdmin e req w))
   \<or> (\<exists>doctor.
         find (\<lambda>d. d_id d = params_id req) (doctors (db w)) = Some doctor
         \<and> db (snd (deleteDoctorByAdmin e req w))
             = (case find (\<lambda>u. u_id u = d_user doctor) (users (db w)) of
                  None \<Rightarrow> findByIdAndDelete (params_id req) (db w)
                | Some user \<Rightarrow>
                    save_user (user\<lparr>u_role := ''user''\<rparr>)
                      (findByIdAndDelete (params_id req) (db w))))"
  by (simp add: deleteDoctorByAdmin_def deleteDoctorByAdmin_try_def catch_finally_def
        startTransaction_def endSession_def abortTransaction_def commitTransaction_def
        session_write_def respond_def Let_def case_prod_beta delete_documents_db
        split: option.split bool.split)

lemma deleteDoctor_committed:
  "\<not> success (fst (deleteDoctor e req w))
   \<or> (\<exists>doctor.
         find (\<lambda>d. d_user d = user_id req) (doctors (db w)) = Some doctor
         \<and> db (snd (deleteDoctor e req w))
             = (case find (\<lambda>u. u_id u = user_id req) (users (db w)) of
                  None \<Rightarrow> findByIdAndDelete (d_id doctor)
                            (cancel_appointments (d_id doctor) (db w))
                | Some user \<Rightarrow>
                    save_user (user\<lparr>u_role := ''user''\<rparr>)
                      (findByIdAndDelete (d_id doctor)
                         (cancel_appointments (d_id doctor) (db w)))))"
  by (simp add: deleteDoctor_def deleteDoctor_try_def catch_finally_def
        startTransaction_def endSession_def abortTransaction_def commitTransaction_def
        session_write_def respond_def Let_def delete_documents_caught_db
        split: option.split)

text \<open>
  C5. \<^verbatim>\<open>createDoctor\<close>, \<^verbatim>\<open>deleteDoctorByAdmin\<close> and \<^verbatim>\<open>deleteDoctor\<close> pass the session to every
  write they make, so each run is all or nothing. A run that does not answer with success,
  whichever call threw and wherever the handler stopped, leaves the database exactly as
  it was. A run that answers with success has committed all of its writes and nothing
  else: for \<^verbatim>\<open>createDoctor\<close> the new profile and, for a user who was not a doctor, the role
  \<^verbatim>\<open>doctor\<close>; for \<^verbatim>\<open>deleteDoctorByAdmin\<close> the deletion of the profile and the role \<^verbatim>\<open>user\<close> of
  its owner; for \<^verbatim>\<open>deleteDoctor\<close> the bulk update of the doctor's appointments, the deletion
  of the profile and the role \<^verbatim>\<open>user\<close>.
\<close>

theorem transactional_handlers_all_or_nothing:
  "(\<not> success (fst (createDoctor e req w)) \<longrightarrow> db (snd (createDoctor e req w)) = db w)
   \<and> (success (fst (createDoctor e req w)) \<longrightarrow>
        (\<exists>user docs.
           find (\<lambda>u. u_id u = user_id req) (users (db w)) = Some user
           \<and> fst (upload_documents e (files req) [] w) = Some docs
           \<and> db (snd (createDoctor e req w))
               = (if u_role user \<noteq> ''doctor''
                  then save_user (user\<lparr>u_role := ''doctor''\<rparr>)
                         (insert_doctor (new_Doctor e (user_id req) (req_body req) docs) (db w))
                  else insert_doctor (new_Doctor e (user_id req) (req_body req) docs) (db w))))
   \<and> (\<not> success (fst (deleteDoctorByAdmin e req w)) \<longrightarrow>
        db (snd (deleteDoctorByAdmin e req w)) = db w)
   \<and> (success (fst (deleteDoctorByAdmin e req w)) \<longrightarrow>
        (\<exists>doctor.
           find (\<lambda>d. d_id d = params_id req) (doctors (db w)) = Some doctor
           \<and> db (snd (deleteDoctorByAdmin e req w))
               = (case find (\<lambda>u. u_id u = d_user doctor) (users (db w)) of
                    None \<Rightarrow> findByIdAndDelete (params_id req) (db w)
                  | Some user \<Rightarrow>
                      save_user (user\<lparr>u_role := ''user''\<rparr>)
                        (findByIdAndDelete (params_id req) (db w)))))
   \<and> (\<not> success (fst (deleteDoctor e req w)) \<longrightarrow> db (snd (deleteDoctor e req w)) = db w)
   \<and> (success (fst (deleteDoctor e req w)) \<longrightarrow>
        (\<exists>doctor.
           find (\<lambda>d. d_user d = user_id req) (doctors (db w)) = Some doctor
           \<and> db (snd (deleteDoctor e req w))
               = (case find (\<lambda>u. u_id u = user_id req) (users (db w)) of
                    None \<Rightarrow> findByIdAndDelete (d_id doctor)
                              (cancel_appointments (d_id doctor) (db w))
                  | Some user \<Rightarrow>
                      save_user (user\<lparr>u_role := ''user''\<rparr>)
                        (findByIdAndDelete (d_id doctor)
                           (cancel_appointments (d_id doctor) (db w))))))"
proof (intro conjI impI)
  assume "\<not> success (fst (createDoctor e req w))"
  then show "db (snd (createDoctor e req w)) = db w"
    unfolding createDoctor_def
    using createDoctor_try_db [of e req "startTransaction w"]
    by (intro catch_finally_atomic) (simp_all add: startTransaction_def)
next
  assume "\<not> success (fst (deleteDoctorByAdmin e req w))"
  then show "db (snd (deleteDoctorByAdmin e req w)) = db w"
    unfolding deleteDoctorByAdmin_def
    using deleteDoctorByAdmin_try_db [of e req "startTransaction w"]
    by (intro catch_finally_atomic) (simp_all add: startTransaction_def)
next
  assume "\<not> success (fst (deleteDoctor e req w))"
  then show "db (snd (deleteDoctor e req w)) = db w"
    unfolding deleteDoctor_def
    using deleteDoctor_try_db [of e req "startTransaction w"]
    by (intro catch_finally_atomic) (simp_all add: startTransaction_def)
next
  assume "success (fst (createDoctor e req w))"
  with createDoctor_committed [of e req w]
  show "\<exists>user docs.
           find (\<lambda>u. u_id u = user_id req) (users (db w)) = Some user
           \<and> fst (upload_documents e (files req) [] w) = Some docs
           \<and> db (snd (createDoctor e req w))
               = (if u_role user \<noteq> ''doctor''
                  then save_user (user\<lparr>u_role := ''doctor''\<rparr>)
                         (insert_doctor (new_Doctor e (user_id req) (req_body req) docs) (db w))
                  else insert_doctor (new_Doctor e (user_id req) (req_body req) docs) (db w))"
    by blast
next
  assume "success (fst (deleteDoctorByAdmin e req w))"
  with deleteDoctorByAdmin_committed [of e req w]
  show "\<exists>doctor.
           find (\<lambda>d. d_id d = params_id req) (doctors (db w)) = Some doctor
           \<and> db (snd (deleteDoctorByAdmin e req w))
               = (case find (\<lambda>u. u_id u = d_user doctor) (users (db w)) of
                    None \<Rightarrow> findByIdAndDelete (params_id req) (db w)
                  | Some user \<Rightarrow>
                      save_user (user\<lparr>u_role := ''user''\<rparr>)
                        (findByIdAndDelete (params_id req) (db w)))"
    by blast
next
  assume "success (fst (deleteDoctor e req w))"
  with deleteDoctor_committed [of e req w]
  show "\<exists>doctor.
           find (\<lambda>d. d_user d = user_id req) (doctors (db w)) = Some doctor
           \<and> db (snd (deleteDoctor e req w))
               = (case find (\<lambda>u. u_id u = user_id req) (users (db w)) of
                    None \<Rightarrow> findByIdAndDelete (d_id doctor)
                              (cancel_appointments (d_id doctor) (db w))
                  | Some user \<Rightarrow>
                      save_user (user\<lparr>u_role := ''user''\<rparr>)
                        (findByIdAndDelete (d_id doctor)
                           (cancel_appointments (d_id doctor) (db w))))"
    by blast
qed

theorem transactional_handlers_all_or_nothing_witness:
  "fst (createDoctor (sample_env (\<lambda>c. c = UserSave))
          ((sample_request 3 ''admin'' 0)
             \<lparr>req_body := sample_body\<lparr>registrationNumber := ''REG-9''\<rparr>\<rparr>) sample_world)
     = server_error
   \<and> db (snd (createDoctor (sample_env (\<lambda>c. c = UserSave))
          ((sample_request 3 ''admin'' 0)
             \<lparr>req_body := sample_body\<lparr>registrationNumber := ''REG-9''\<rparr>\<rparr>) sample_world))
     = db sample_world
   \<and> fst (deleteDoctorByAdmin (sample_env (\<lambda>c. c = CommitTransaction))
          (sample_request 3 ''admin'' 10) sample_world) = server_error
   \<and> db (snd (deleteDoctorByAdmin (sample_env (\<lambda>c. c = CommitTransaction))
          (sample_request 3 ''admin'' 10) sample_world)) = db sample_world
   \<and> fst (deleteDoctor (sample_env (\<lambda>c. c = DoctorDelete))
          (sample_request 4 ''doctor'' 0) sample_world) = server_error
   \<and> db (snd (deleteDoctor (sample_env (\<lambda>c. c = DoctorDelete))
          (sample_request 4 ''doctor'' 0) sample_world)) = db sample_world
   \<and> success (fst (createDoctor (sample_env (\<lambda>c. False))
          ((sample_request 3 ''admin'' 0)
             \<lparr>req_body := sample_body\<lparr>registrationNumber := ''REG-9''\<rparr>\<rparr>) sample_world))
   \<and> db (snd (createDoctor (sample_env (\<lambda>c. False))
          ((sample_request 3 ''admin'' 0)
             \<lparr>req_body := sample_body\<lparr>registrationNumber := ''REG-9''\<rparr>\<rparr>) sample_world))
     = save_user \<lparr>u_id = 3, u_role = ''doctor''\<rparr>
         (insert_doctor
            (new_Doctor (sample_env (\<lambda>c. False)) 3
               (sample_body\<lparr>registrationNumber := ''REG-9''\<rparr>)
               [\<lparr>vd_name = ''degree.pdf'', vd_url = ''files/degree.pdf'', vd_verified = False\<rparr>])
            (db sample_world))
   \<and> success (fst (deleteDoctorByAdmin (sample_env (\<lambda>c. False))
          (sample_request 3 ''admin'' 10) sample_world))
   \<and> db (snd (deleteDoctorByAdmin (sample_env (\<lambda>c. False))
          (sample_request 3 ''admin'' 10) sample_world))
     = save_user \<lparr>u_id = 1, u_role = ''user''\<rparr> (findByIdAndDelete 10 (db sample_world))
   \<and> success (fst (deleteDoctor (sample_env (\<lambda>c. False))
          (sample_request 4 ''doctor'' 0) sample_world))
   \<and> db (snd (deleteDoctor (sample_env (\<lambda>c. False))
          (sample_request 4 ''doctor'' 0) sample_world))
     = save_user \<lparr>u_id = 4, u_role = ''user''\<rparr>
         (findByIdAndDelete 11 (cancel_appointments 11 (db sample_world)))"
proof -
  let ?create = "(sample_request 3 ''admin'' 0)
             \<lparr>req_body := sample_body\<lparr>registrationNumber := ''REG-9''\<rparr>\<rparr>"
  have a: "fst (createDoctor (sample_env (\<lambda>c. c = UserSave)) ?create sample_world)
             = server_error"
    by (simp add: sample_defs createDoctor_def createDoctor_try_def catch_finally_def
          startTransaction_def Let_def new_Doctor_def session_write_def)
  have b: "fst (deleteDoctorByAdmin (sample_env (\<lambda>c. c = CommitTransaction))
          (sample_request 3 ''admin'' 10) sample_world) = server_error"
    by (simp add: sample_defs deleteDoctorByAdmin_def deleteDoctorByAdmin_try_def
          catch_finally_def startTransaction_def Let_def session_write_def)
  have c: "fst (deleteDoctor (sample_env (\<lambda>c. c = DoctorDelete))
          (sample_request 4 ''doctor'' 0) sample_world) = server_error"
    by (simp add: sample_defs deleteDoctor_def deleteDoctor_try_def catch_finally_def
          startTransaction_def Let_def session_write_def active_appointment_def ts_le_def)
  have a': "success (fst (createDoctor (sample_env (\<lambda>c. False)) ?create sample_world))"
    by (simp add: sample_defs createDoctor_def createDoctor_try_def catch_finally_def
          startTransaction_def Let_def new_Doctor_def session_write_def respond_def)
  have b': "success (fst (deleteDoctorByAdmin (sample_env (\<lambda>c. False))
          (sample_request 3 ''admin'' 10) sample_world))"
    by (simp add: sample_defs deleteDoctorByAdmin_def deleteDoctorByAdmin_try_def
          catch_finally_def startTransaction_def Let_def session_write_def respond_def)
  have c': "success (fst (deleteDoctor (sample_env (\<lambda>c. False))
          (sample_request 4 ''doctor'' 0) sample_world))"
    by (simp add: sample_defs deleteDoctor_def deleteDoctor_try_def catch_finally_def
          startTransaction_def Let_def session_write_def active_appointment_def ts_le_def
          respond_def)
  note fail =
    transactional_handlers_all_or_nothing [of "sample_env (\<lambda>c. c = UserSave)" ?create sample_world]
    transactional_handlers_all_or_nothing [of "sample_env (\<lambda>c. c = CommitTransaction)"
      "sample_request 3 ''admin'' 10" sample_world]
    transactional_handlers_all_or_nothing [of "sample_env (\<lambda>c. c = DoctorDelete)"
      "sample_request 4 ''doctor'' 0" sample_world]
  have rolled: "db (snd (createDoctor (sample_env (\<lambda>c. c = UserSave)) ?create sample_world))
                  = db sample_world"
    "db (snd (deleteDoctorByAdmin (sample_env (\<lambda>c. c = CommitTransaction))
          (sample_request 3 ''admin'' 10) sample_world)) = db sample_world"
    "db (snd (deleteDoctor (sample_env (\<lambda>c. c = DoctorDelete))
          (sample_request 4 ''doctor'' 0) sample_world)) = db sample_world"
    using a b c fail by (simp_all add: respond_def)
  from transactional_handlers_all_or_nothing
         [of "sample_env (\<lambda>c. False)" ?create sample_world] a'
  obtain user docs where
    "find (\<lambda>u. u_id u = user_id ?create) (users (db sample_world)) = Some user"
    "fst (upload_documents (sample_env (\<lambda>c. False)) (files ?create) [] sample_world) = Some docs"
    and d1: "db (snd (createDoctor (sample_env (\<lambda>c. False)) ?create sample_world))
          = (if u_role user \<noteq> ''doctor''
             then save_user (user\<lparr>u_role := ''doctor''\<rparr>)
                    (insert_doctor (new_Doctor (sample_env (\<lambda>c. False)) (user_id ?create)
                       (req_body ?create) docs) (db sample_world))
             else insert_doctor (new_Doctor (sample_env (\<lambda>c. False)) (user_id ?create)
                    (req_body ?create) docs) (db sample_world))"
    by blast
  then have u1: "user = \<lparr>u_id = 3, u_role = ''admin''\<rparr>"
    and u2: "docs = [\<lparr>vd_name = ''degree.pdf'', vd_url = ''files/degree.pdf'',
                      vd_verified = False\<rparr>]"
    by (simp_all add: sample_world_def sample_request_def sample_env_def)
  have committed1: "db (snd (createDoctor (sample_env (\<lambda>c. False)) ?create sample_world))
     = save_user \<lparr>u_id = 3, u_role = ''doctor''\<rparr>
         (insert_doctor
            (new_Doctor (sample_env (\<lambda>c. False)) 3
               (sample_body\<lparr>registrationNumber := ''REG-9''\<rparr>)
               [\<lparr>vd_name = ''degree.pdf'', vd_url = ''files/degree.pdf'', vd_verified = False\<rparr>])
            (db sample_world))"
    unfolding d1 u1 u2 by (simp add: sample_request_def)
  from transactional_handlers_all_or_nothing
         [of "sample_env (\<lambda>c. False)" "sample_request 3 ''admin'' 10" sample_world] b'
  obtain doctor where
    "find (\<lambda>d. d_id d = params_id (sample_request 3 ''admin'' 10))
       (doctors (db sample_world)) = Some doctor"
    and d2: "db (snd (deleteDoctorByAdmin (sample_env (\<lambda>c. False))
                   (sample_request 3 ''admin'' 10) sample_world))
          = (case find (\<lambda>u. u_id u = d_user doctor) (users (db sample_world)) of
               None \<Rightarrow> findByIdAndDelete (params_id (sample_request 3 ''admin'' 10))
                         (db sample_world)
             | Some user \<Rightarrow>
                 save_user (user\<lparr>u_role := ''user''\<rparr>)
                   (findByIdAndDelete (params_id (sample_request 3 ''admin'' 10))
                      (db sample_world)))"
    by blast
  then have u3: "doctor = sample_doctor"
    by (simp add: sample_world_def sample_request_def sample_doctor_def)
  have committed2: "db (snd (deleteDoctorByAdmin (sample_env (\<lambda>c. False))
          (sample_request 3 ''admin'' 10) sample_world))
     = save_user \<lparr>u_id = 1, u_role = ''user''\<rparr> (findByIdAndDelete 10 (db sample_world))"
    unfolding d2 u3 by (simp add: sample_request_def sample_doctor_def sample_world_def)
  from transactional_handlers_all_or_nothing
         [of "sample_env (\<lambda>c. False)" "sample_request 4 ''doctor'' 0" sample_world] c'
  obtain doctor' where
    "find (\<lambda>d. d_user d = user_id (sample_request 4 ''doctor'' 0))
       (doctors (db sample_world)) = Some doctor'"
    and d3: "db (snd (deleteDoctor (sample_env (\<lambda>c. False))
                   (sample_request 4 ''doctor'' 0) sample_world))
          = (case find (\<lambda>u. u_id u = user_id (sample_request 4 ''doctor'' 0))
                    (users (db sample_world)) of
               None \<Rightarrow> findByIdAndDelete (d_id doctor')
                         (cancel_appointments (d_id doctor') (db sample_world))
             | Some user \<Rightarrow>
                 save_user (user\<lparr>u_role := ''user''\<rparr>)
                   (findByIdAndDelete (d_id doctor')
                      (cancel_appointments (d_id doctor') (db sample_world))))"
    by blast
  then have u4: "doctor' = sample_doctor2"
    by (simp add: sample_world_def sample_request_def sample_doctor_def sample_doctor2_def)
  have committed3: "db (snd (deleteDoctor (sample_env (\<lambda>c. False))
          (sample_request 4 ''doctor'' 0) sample_world))
     = save_user \<lparr>u_id = 4, u_role = ''user''\<rparr>
         (findByIdAndDelete 11 (cancel_appointments 11 (db sample_world)))"
    unfolding d3 u4
    by (simp add: sample_request_def sample_doctor_def sample_doctor2_def sample_world_def)
  from a b c rolled a' committed1 b' committed2 c' committed3 show ?thesis
    by (intro conjI)
qed

text \<open>
  \<^verbatim>\<open>deleteDoctorByAdmin\<close> makes no bulk update of appointments, inside its transaction or
  outside: the administrator deletes doctor 10, and the doctor's scheduled appointment
  stays scheduled, with no cancellation reason.
\<close>

theorem deleteDoctorByAdmin_updates_no_appointment:
  "fst (deleteDoctorByAdmin (sample_env (\<lambda>c. False)) (sample_request 3 ''admin'' 10)
          sample_world)
     = respond 200 True ''Doctor profile deleted successfully'' None
   \<and> doctors (db (snd (deleteDoctorByAdmin (sample_env (\<lambda>c. False))
          (sample_request 3 ''admin'' 10) sample_world))) = [sample_doctor2]
   \<and> appointments (db (snd (deleteDoctorByAdmin (sample_env (\<lambda>c. False))
          (sample_request 3 ''admin'' 10) sample_world))) = sample_appointments
   \<and> a_doctor (hd sample_appointments) = 10
   \<and> a_status (hd sample_appointments) = ''scheduled''"
  by (simp add: sample_defs deleteDoctorByAdmin_def deleteDoctorByAdmin_try_def
        catch_finally_def startTransaction_def endSession_def commitTransaction_def
        session_write_def findByIdAndDelete_def save_user_def Let_def)

subsection \<open>Reviews\<close>

lemma findIndex_ge: "- 1 \<le> findIndex P xs"
  by (induction xs) (auto simp: Let_def)

lemma findIndex_none: "findIndex P xs = - 1 \<longleftrightarrow> (\<forall>x \<in> set xs. \<not> P x)"
proof (induction xs)
  case Nil
  then show ?case by simp
next
  case (Cons x xs)
  have "findIndex P xs + 1 \<noteq> - 1" using findIndex_ge [of P xs] by linarith
  with Cons show ?case by (auto simp: Let_def)
qed

lemma findIndex_first:
  "\<exists>x \<in> set xs. P x \<Longrightarrow>
     nat (findIndex P xs) < length xs \<and> P (xs ! nat (findIndex P xs))
     \<and> (\<forall>j < nat (findIndex P xs). \<not> P (xs ! j))"
proof (induction xs)
  case Nil
  then show ?case by simp
next
  case (Cons x xs)
  show ?case
  proof (cases "P x")
    case True
    then show ?thesis by simp
  next
    case False
    with Cons.prems have ex: "\<exists>x \<in> set xs. P x" by simp
    then have ne: "findIndex P xs \<noteq> - 1" by (simp add: findIndex_none)
    with findIndex_ge [of P xs] have ge: "0 \<le> findIndex P xs" by linarith
    then have n: "nat (findIndex P xs + 1) = Suc (nat (findIndex P xs))" by simp
    from Cons.IH [OF ex] False ne show ?thesis
      by (auto simp: Let_def n less_Suc_eq_0_disj)
  qed
qed

lemma upsert_review_existing:
  assumes "\<exists>r \<in> set reviews. r_patient r = P"
  shows "upsert_review e P rt cm reviews
           = reviews[nat (findIndex (\<lambda>r. r_patient r = P) reviews)
                       := \<lparr>r_patient = P, r_rating = rt, r_comment = cm, r_date = e_Date_now e\<rparr>]"
proof -
  let ?i = "nat (findIndex (\<lambda>r. r_patient r = P) reviews)"
  from findIndex_first [of reviews "\<lambda>r. r_patient r = P"] assms
  have i: "?i < length reviews" and p: "r_patient (reviews ! ?i) = P" by simp_all
  from assms have "findIndex (\<lambda>r. r_patient r = P) reviews \<noteq> - 1"
    by (simp add: findIndex_none)
  with findIndex_ge [of "\<lambda>r. r_patient r = P" reviews]
  have gt: "findIndex (\<lambda>r. r_patient r = P) reviews > - 1" by linarith
  have "(reviews ! ?i)\<lparr>r_rating := rt, r_comment := cm, r_date := e_Date_now e\<rparr>
          = \<lparr>r_patient = P, r_rating = rt, r_comment = cm, r_date = e_Date_now e\<rparr>"
    using p by (cases "reviews ! ?i") simp
  then show ?thesis
    using gt i by (simp add: upsert_review_def Let_def)
qed

lemma upsert_review_new:
  assumes "\<forall>r \<in> set reviews. r_patient r \<noteq> P"
  shows "upsert_review e P rt cm reviews
           = reviews @ [\<lparr>r_patient = P, r_rating = rt, r_comment = cm, r_date = e_Date_now e\<rparr>]"
proof -
  from assms have "findIndex (\<lambda>r. r_patient r = P) reviews = - 1"
    by (simp add: findIndex_none)
  then show ?thesis by (simp add: upsert_review_def Let_def)
qed

lemma find_save_doctor:
  assumes "find (\<lambda>d. d_id d = i) ds = Some d" and "d_id d' = d_id d"
  shows "find (\<lambda>d. d_id d = i) (map (\<lambda>x. if d_id x = d_id d' then d' else x) ds) = Some d'"
  using assms by (induction ds) (auto split: if_splits)

lemma addDoctorReview_success:
  assumes "status (fst (addDoctorReview e req w)) = 200"
    and "find (\<lambda>d. d_id d = params_id req) (doctors (db w)) = Some doctor"
    and "find (\<lambda>p. p_user p = user_id req) (patients (db w)) = Some patient"
  shows "addDoctorReview e req w
     = (let reviews' = upsert_review e (p_id patient) (rating (req_body req))
                         (comment (req_body req)) (d_reviews doctor);
            doctor' = doctor\<lparr>d_reviews := reviews', d_averageRating := average (map r_rating reviews')\<rparr>
        in (respond 200 True ''Review added successfully'' (Some reviews'),
            w\<lparr>db := save_doctor doctor' (db w)\<rparr>))"
  using assms
  by (simp add: addDoctorReview_def Let_def updateAverageRating_def respond_def
        split: if_splits option.splits)


text \<open>
  C2. When \<^verbatim>\<open>addDoctorReview\<close> succeeds for doctor D and the patient P of the authenticated
  user, the stored document of D and the response carry the same review list, and: if D
  had a review by P, the list has the same length and the same patients in the same
  places (no entry is added, so a list with one review per patient stays so), and the
  first entry of P now has the submitted rating and comment and the current time as its
  date; if D had no review by P, the list is the old one with exactly one new entry for P
  at its end. In both cases a list without two reviews of one patient stays without.
\<close>

theorem addDoctorReview_upsert:
  assumes "status (fst (addDoctorReview e req w)) = 200"
    and "find (\<lambda>d. d_id d = params_id req) (doctors (db w)) = Some doctor"
    and "find (\<lambda>p. p_user p = user_id req) (patients (db w)) = Some patient"
  shows "\<exists>doctor'.
           find (\<lambda>d. d_id d = params_id req) (doctors (db (snd (addDoctorReview e req w))))
             = Some doctor'
           \<and> data (fst (addDoctorReview e req w)) = Some (d_reviews doctor')
           \<and> (if \<exists>r \<in> set (d_reviews doctor). r_patient r = p_id patient
               then length (d_reviews doctor') = length (d_reviews doctor)
                    \<and> map r_patient (d_reviews doctor') = map r_patient (d_reviews doctor)
                    \<and> (\<exists>i < length (d_reviews doctor).
                          r_patient (d_reviews doctor ! i) = p_id patient
                          \<and> d_reviews doctor'
                              = (d_reviews doctor)
                                  [i := \<lparr>r_patient = p_id patient,
                                         r_rating = rating (req_body req),
                                         r_comment = comment (req_body req),
                                         r_date = e_Date_now e\<rparr>])
               else d_reviews doctor'
                      = d_reviews doctor
                        @ [\<lparr>r_patient = p_id patient, r_rating = rating (req_body req),
                            r_comment = comment (req_body req), r_date = e_Date_now e\<rparr>])
           \<and> (distinct (map r_patient (d_reviews doctor))
                \<longrightarrow> distinct (map r_patient (d_reviews doctor')))"
proof -
  define new where "new = \<lparr>r_patient = p_id patient, r_rating = rating (req_body req),
                            r_comment = comment (req_body req), r_date = e_Date_now e\<rparr>"
  define reviews' where "reviews' = upsert_review e (p_id patient) (rating (req_body req))
                         (comment (req_body req)) (d_reviews doctor)"
  define doctor' where "doctor' = doctor\<lparr>d_reviews := reviews',
                                  d_averageRating := average (map r_rating reviews')\<rparr>"
  have run: "addDoctorReview e req w
               = (respond 200 True ''Review added successfully'' (Some reviews'),
                  w\<lparr>db := save_doctor doctor' (db w)\<rparr>)"
    using addDoctorReview_success [OF assms] by (simp add: Let_def reviews'_def doctor'_def)
  have did: "d_id doctor' = d_id doctor" by (simp add: doctor'_def)
  have found: "find (\<lambda>d. d_id d = params_id req)
                 (doctors (db (snd (addDoctorReview e req w)))) = Some doctor'"
    unfolding run using find_save_doctor [OF assms(2), of doctor']
    by (simp add: save_doctor_def did)
  have dat: "data (fst (addDoctorReview e req w)) = Some (d_reviews doctor')"
    unfolding run by (simp add: respond_def doctor'_def)
  have rv: "d_reviews doctor' = reviews'" by (simp add: doctor'_def)
  have shape: "if \<exists>r \<in> set (d_reviews doctor). r_patient r = p_id patient
               then length reviews' = length (d_reviews doctor)
                    \<and> map r_patient reviews' = map r_patient (d_reviews doctor)
                    \<and> (\<exists>i < length (d_reviews doctor).
                          r_patient (d_reviews doctor ! i) = p_id patient
                          \<and> reviews' = (d_reviews doctor)[i := new])
               else reviews' = d_reviews doctor @ [new]"
  proof (cases "\<exists>r \<in> set (d_reviews doctor). r_patient r = p_id patient")
    case True
    let ?i = "nat (findIndex (\<lambda>r. r_patient r = p_id patient) (d_reviews doctor))"
    from findIndex_first [of "d_reviews doctor" "\<lambda>r. r_patient r = p_id patient"] True
    have i: "?i < length (d_reviews doctor)" and pi: "r_patient (d_reviews doctor ! ?i) = p_id patient"
      by simp_all
    have eq: "reviews' = (d_reviews doctor)[?i := new]"
      unfolding reviews'_def new_def by (rule upsert_review_existing [OF True])
    have "map r_patient reviews' = (map r_patient (d_reviews doctor))[?i := p_id patient]"
      unfolding eq by (simp add: map_update new_def)
    also have "\<dots> = map r_patient (d_reviews doctor)"
      using i pi by (metis list_update_id nth_map)
    finally have "map r_patient reviews' = map r_patient (d_reviews doctor)" .
    with True i pi eq show ?thesis by auto
  next
    case False
    then have "reviews' = d_reviews doctor @ [new]"
      unfolding reviews'_def new_def by (intro upsert_review_new) simp
    with False show ?thesis by simp
  qed
  have inv: "distinct (map r_patient (d_reviews doctor)) \<longrightarrow> distinct (map r_patient reviews')"
  proof (cases "\<exists>r \<in> set (d_reviews doctor). r_patient r = p_id patient")
    case True
    with shape show ?thesis by simp
  next
    case False
    with shape have "reviews' = d_reviews doctor @ [new]" by simp
    with False show ?thesis by (auto simp: new_def)
  qed
  show ?thesis
    using found dat shape inv unfolding new_def by (intro exI [of _ doctor']) (simp add: rv)
qed

theorem addDoctorReview_upsert_witness:
  "status (fst (addDoctorReview (sample_env (\<lambda>c. False)) (sample_request 2 ''user'' 10)
                  sample_world)) = 200
   \<and> data (fst (addDoctorReview (sample_env (\<lambda>c. False)) (sample_request 2 ''user'' 10)
                  sample_world))
       = Some [\<lparr>r_patient = 20, r_rating = 5, r_comment = ''excellent'', r_date = 2000\<rparr>]
   \<and> map d_reviews (doctors (db (snd (addDoctorReview (sample_env (\<lambda>c. False))
                  (sample_request 2 ''user'' 10) sample_world))))
       = [[\<lparr>r_patient = 20, r_rating = 5, r_comment = ''excellent'', r_date = 2000\<rparr>], []]"
proof -
  have run: "status (fst (addDoctorReview (sample_env (\<lambda>c. False))
                            (sample_request 2 ''user'' 10) sample_world)) = 200"
    by (simp add: sample_defs addDoctorReview_def Let_def updateAverageRating_def respond_def)
  show ?thesis
    using run addDoctorReview_upsert [OF run, of sample_doctor "\<lparr>p_id = 20, p_user = 2\<rparr>"]
    by (simp add: sample_defs addDoctorReview_def Let_def updateAverageRating_def respond_def
          upsert_review_def save_doctor_def average_def)
qed

text \<open>
  C8. With a rating from 1 to 5, an existing doctor D, an existing patient profile P of the
  authenticated user and a database that answers, \<^verbatim>\<open>addDoctorReview\<close> succeeds if and only
  if some appointment of P with D has the status \<^verbatim>\<open>completed\<close>; when there is none the
  response is the 403 and the world, D's review list included, is unchanged.
\<close>

theorem addDoctorReview_requires_completed_appointment:
  assumes "1 \<le> rating (req_body req)" and "rating (req_body req) \<le> 5"
    and "find (\<lambda>d. d_id d = params_id req) (doctors (db w)) = Some doctor"
    and "find (\<lambda>p. p_user p = user_id req) (patients (db w)) = Some patient"
    and "\<not> e_fails e DoctorFind" and "\<not> e_fails e PatientFind"
    and "\<not> e_fails e AppointmentFind" and "\<not> e_fails e UpdateAverageRating"
  shows "(status (fst (addDoctorReview e req w)) = 200
           \<longleftrightarrow> (\<exists>a \<in> set (appointments (db w)).
                  a_doctor a = params_id req \<and> a_patient a = p_id patient
                  \<and> a_status a = ''completed''))
         \<and> (\<not> (\<exists>a \<in> set (appointments (db w)).
                  a_doctor a = params_id req \<and> a_patient a = p_id patient
                  \<and> a_status a = ''completed'')
            \<longrightarrow> addDoctorReview e req w
                  = (respond 403 False
                       ''You can only review doctors after completing an appointment'' None, w))"
proof (cases "find (\<lambda>a. a_doctor a = params_id req \<and> a_patient a = p_id patient \<and>
                        a_status a = ''completed'') (appointments (db w))")
  case None
  then have no: "\<not> (\<exists>a \<in> set (appointments (db w)).
                  a_doctor a = params_id req \<and> a_patient a = p_id patient
                  \<and> a_status a = ''completed'')"
    by (simp add: find_None_iff)
  have "addDoctorReview e req w
          = (respond 403 False
               ''You can only review doctors after completing an appointment'' None, w)"
    using assms None by (simp add: addDoctorReview_def Let_def)
  with no show ?thesis by (simp add: respond_def)
next
  case (Some a)
  then have yes: "\<exists>a \<in> set (appointments (db w)).
                  a_doctor a = params_id req \<and> a_patient a = p_id patient
                  \<and> a_status a = ''completed''"
    by (auto simp: find_Some_iff)
  have "status (fst (addDoctorReview e req w)) = 200"
    using assms Some by (simp add: addDoctorReview_def Let_def updateAverageRating_def respond_def)
  with yes show ?thesis by simp
qed

theorem addDoctorReview_requires_completed_appointment_witness:
  "addDoctorReview (sample_env (\<lambda>c. False)) (sample_request 5 ''user'' 10) sample_world
     = (respond 403 False ''You can only review doctors after completing an appointment'' None,
        sample_world)
   \<and> status (fst (addDoctorReview (sample_env (\<lambda>c. False)) (sample_request 2 ''user'' 10)
                    sample_world)) = 200"
  using addDoctorReview_requires_completed_appointment
      [of "sample_request 5 ''user'' 10" sample_world sample_doctor "\<lparr>p_id = 21, p_user = 5\<rparr>"
          "sample_env (\<lambda>c. False)"]
    addDoctorReview_requires_completed_appointment
      [of "sample_request 2 ''user'' 10" sample_world sample_doctor "\<lparr>p_id = 20, p_user = 2\<rparr>"
          "sample_env (\<lambda>c. False)"]
  by (simp add: sample_defs)

subsection \<open>Availability of a day\<close>

text \<open>
  C9. For an existing doctor and a queried date, when the database answers and the weekday
  of the date is absent from the doctor's availability or its entry (the first for that
  weekday) has \<^verbatim>\<open>isAvailable\<close> false, \<^verbatim>\<open>getDoctorAvailability\<close> answers 200 with the name of
  the weekday, \<^verbatim>\<open>isAvailable: false\<close> and no slots, whatever slots the entry holds.
\<close>

theorem getDoctorAvailability_unavailable_day:
  assumes "find (\<lambda>d. d_id d = params_id req) (doctors (db w)) = Some doctor"
    and "query_date req = Some queryDate"
    and "\<not> e_fails e DoctorFind" and "\<not> e_fails e AppointmentFind"
    and "(\<forall>a \<in> set (d_availability doctor). day a \<noteq> weekdays ! getDay queryDate)
         \<or> (\<exists>da. find (\<lambda>a. day a = weekdays ! getDay queryDate) (d_availability doctor)
                     = Some da \<and> \<not> isAvailable da)"
  shows "getDoctorAvailability e req w
           = respond 200 True []
               (Some (ForDate \<lparr>dayOfWeek = weekdays ! getDay queryDate,
                                dv_isAvailable = False, availableSlots = []\<rparr>))"
proof -
  from assms(5) show ?thesis
  proof
    assume "\<forall>a \<in> set (d_availability doctor). day a \<noteq> weekdays ! getDay queryDate"
    then have "find (\<lambda>a. day a = weekdays ! getDay queryDate) (d_availability doctor) = None"
      by (simp add: find_None_iff)
    with assms(1-4) show ?thesis by (simp add: getDoctorAvailability_def Let_def)
  next
    assume "\<exists>da. find (\<lambda>a. day a = weekdays ! getDay queryDate) (d_availability doctor)
                     = Some da \<and> \<not> isAvailable da"
    then obtain da where
      "find (\<lambda>a. day a = weekdays ! getDay queryDate) (d_availability doctor) = Some da"
      "\<not> isAvailable da" by blast
    with assms(1-4) show ?thesis by (simp add: getDoctorAvailability_def Let_def)
  qed
qed

theorem getDoctorAvailability_unavailable_day_witness:
  "getDoctorAvailability (sample_env (\<lambda>c. False))
     ((sample_request 2 ''user'' 10)
        \<lparr>query_date := Some \<lparr>t_year = 2024, t_month = 1, t_day = 19, t_ms = 0\<rparr>\<rparr>) sample_world
     = respond 200 True []
         (Some (ForDate \<lparr>dayOfWeek = ''Tuesday'', dv_isAvailable = False, availableSlots = []\<rparr>))"
  using getDoctorAvailability_unavailable_day
    [of "(sample_request 2 ''user'' 10)
           \<lparr>query_date := Some \<lparr>t_year = 2024, t_month = 1, t_day = 19, t_ms = 0\<rparr>\<rparr>"
        sample_world sample_doctor "\<lparr>t_year = 2024, t_month = 1, t_day = 19, t_ms = 0\<rparr>"
        "sample_env (\<lambda>c. False)"]
  by (simp add: sample_defs getDay_def getDate_def weekdays_def Let_def)

text \<open>
  On an available weekday the slots of the entry come back in order, and a slot is marked
  booked exactly when an appointment that passes the filter of the query has the slot's
  start time.
\<close>

lemma includes_bookedSlots:
  "t \<in> set (map a_appointmentTime (filter P appts))
     \<longleftrightarrow> (\<exists>a \<in> set appts. P a \<and> a_appointmentTime a = t)"
  by auto

lemma getDoctorAvailability_available_day:
  assumes "find (\<lambda>d. d_id d = params_id req) (doctors (db w)) = Some doctor"
    and "query_date req = Some queryDate"
    and "\<not> e_fails e DoctorFind" and "\<not> e_fails e AppointmentFind"
    and "find (\<lambda>a. day a = weekdays ! getDay queryDate) (d_availability doctor) = Some da"
    and "isAvailable da"
  shows "getDoctorAvailability e req w
           = respond 200 True []
               (Some (ForDate \<lparr>dayOfWeek = weekdays ! getDay queryDate, dv_isAvailable = True,
                  availableSlots =
                    map (\<lambda>slot. \<lparr>startTime = startTime slot, endTime = endTime slot,
                           isBooked = (\<exists>a \<in> set (appointments (db w)).
                              booked_on (params_id req) queryDate a
                              \<and> a_appointmentTime a = startTime slot)\<rparr>) (slots da)\<rparr>))"
  using assms by (simp add: getDoctorAvailability_def Let_def includes_bookedSlots del: set_map set_filter)

text \<open>
  C3. The filter of the query keeps the appointments from \<^verbatim>\<open>setHours(0, 0, 0)\<close> of the
  queried date, which keeps the milliseconds of that date, up to but not including
  \<^verbatim>\<open>setHours(23, 59, 59)\<close>. Queried with Monday 19 February 2024, 10:15:30.500, the doctor's
  scheduled appointment of that Monday, stored at midnight for 09:00, is outside the
  window, and the 09:00 slot comes back not booked although such an appointment exists.
  Queried with that Monday at midnight, an appointment dated 23:59:59.000 of the same
  day for 09:30 is outside the window as well.
\<close>

theorem getDoctorAvailability_misses_midnight_appointment:
  "getDoctorAvailability (sample_env (\<lambda>c. False))
     ((sample_request 2 ''user'' 10)
        \<lparr>query_date := Some \<lparr>t_year = 2024, t_month = 1, t_day = 18, t_ms = 36930500\<rparr>\<rparr>)
     sample_world
     = respond 200 True []
         (Some (ForDate \<lparr>dayOfWeek = ''Monday'', dv_isAvailable = True,
            availableSlots =
              [\<lparr>startTime = ''09:00'', endTime = ''09:30'', isBooked = False\<rparr>,
               \<lparr>startTime = ''09:30'', endTime = ''10:00'', isBooked = False\<rparr>]\<rparr>))
   \<and> (\<exists>a \<in> set (appointments (db sample_world)).
         a_doctor a = 10
         \<and> (t_year (a_appointmentDate a), t_month (a_appointmentDate a),
             t_day (a_appointmentDate a)) = (2024, 1, 18)
         \<and> a_appointmentTime a = ''09:00'' \<and> a_status a = ''scheduled'')
   \<and> getDoctorAvailability (sample_env (\<lambda>c. False))
       ((sample_request 2 ''user'' 10)
          \<lparr>query_date := Some \<lparr>t_year = 2024, t_month = 1, t_day = 18, t_ms = 0\<rparr>\<rparr>)
       (sample_world\<lparr>db := (db sample_world)\<lparr>appointments :=
          [\<lparr>a_doctor = 10, a_patient = 20,
            a_appointmentDate = \<lparr>t_year = 2024, t_month = 1, t_day = 18, t_ms = 86399000\<rparr>,
            a_appointmentTime = ''09:30'', a_status = ''scheduled'', a_cancellationReason = [],
            a_createdAt = \<lparr>t_year = 2024, t_month = 1, t_day = 2, t_ms = 0\<rparr>\<rparr>]\<rparr>\<rparr>)
     = respond 200 True []
         (Some (ForDate \<lparr>dayOfWeek = ''Monday'', dv_isAvailable = True,
            availableSlots =
              [\<lparr>startTime = ''09:00'', endTime = ''09:30'', isBooked = False\<rparr>,
               \<lparr>startTime = ''09:30'', endTime = ''10:00'', isBooked = False\<rparr>]\<rparr>))"
  by (simp add: sample_defs getDoctorAvailability_def Let_def booked_on_def setHours_def
        ts_le_def ts_less_def getDay_def getDate_def weekdays_def)

subsection \<open>Profile updates\<close>

lemma assign_if_select: "sel (assign_if c f d) = (if c then sel (f d) else sel d)"
  by (simp add: assign_if_def)

lemmas assign_if_fields =
  assign_if_select [of d_id] assign_if_select [of d_qualifications]
  assign_if_select [of d_specialties] assign_if_select [of d_experience]
  assign_if_select [of d_clinicDetails] assign_if_select [of d_hospitalAffiliations]
  assign_if_select [of d_consultationFee] assign_if_select [of d_languages]
  assign_if_select [of d_bio] assign_if_select [of d_videoConsultation]
  assign_if_select [of d_acceptingNewPatients] assign_if_select [of d_verificationDocuments]
  assign_if_select [of d_isVerified] assign_if_select [of d_availability]

lemma updateDoctor_fields_written:
  "written_fields b doctor (updateDoctor_fields b doctor)"
  unfolding written_fields_def updateDoctor_fields_def Let_def
  by (intro conjI) (simp_all add: assign_if_fields)

lemma updateDoctorProfile_fields_written:
  "written_fields b doctor (updateDoctorProfile_fields b doctor)"
  unfolding written_fields_def updateDoctorProfile_fields_def Let_def
  by (intro conjI) (simp_all add: assign_if_fields)

lemma updateDoctor_fields_frame:
  "d_id (updateDoctor_fields b doctor) = d_id doctor"
  "d_verificationDocuments (updateDoctor_fields b doctor) = d_verificationDocuments doctor"
  "d_isVerified (updateDoctor_fields b doctor) = d_isVerified doctor"
  "d_availability (updateDoctor_fields b doctor)
     = (case availability b of Some av \<Rightarrow> av | None \<Rightarrow> d_availability doctor)"
  unfolding updateDoctor_fields_def Let_def
  by (simp_all add: assign_if_fields split: option.split)

lemma updateDoctorProfile_fields_frame:
  "d_id (updateDoctorProfile_fields b doctor) = d_id doctor"
  "d_availability (updateDoctorProfile_fields b doctor) = d_availability doctor"
  unfolding updateDoctorProfile_fields_def Let_def
  by (simp_all add: assign_if_fields)


lemma written_fields_frame:
  "written_fields b old new \<Longrightarrow> written_fields b old (new\<lparr>d_verificationDocuments := docs\<rparr>)"
  "written_fields b old new \<Longrightarrow> written_fields b old (new\<lparr>d_isVerified := v\<rparr>)"
  by (simp_all add: written_fields_def)

lemma updateDoctor_success:
  assumes "status (fst (updateDoctor e req w)) = 200"
  shows "\<exists>doctor saved.
           find (\<lambda>d. d_id d = params_id req) (doctors (db w)) = Some doctor
           \<and> data (fst (updateDoctor e req w)) = Some saved
           \<and> doctors (db (snd (updateDoctor e req w)))
               = map (\<lambda>x. if d_id x = d_id doctor then saved else x) (doctors (db w))
           \<and> written_fields (req_body req) doctor saved
           \<and> d_availability saved
               = (case availability (req_body req) of
                    Some av \<Rightarrow> av | None \<Rightarrow> d_availability doctor)"
proof -
  from assms obtain doctor where
    found: "find (\<lambda>d. d_id d = params_id req) (doctors (db w)) = Some doctor"
    by (cases "find (\<lambda>d. d_id d = params_id req) (doctors (db w))")
       (auto simp: updateDoctor_def Let_def respond_def split: if_splits)
  define doctor1 where "doctor1 = updateDoctor_fields (req_body req) doctor"
  define up where "up = upload_documents e (files req) (d_verificationDocuments doctor1) w"
  from assms found obtain docs where docs: "fst up = Some docs"
    by (cases "fst up")
       (auto simp: updateDoctor_def Let_def respond_def case_prod_beta
          doctor1_def up_def split: if_splits)
  define saved where "saved = (if files req \<noteq> [] \<and> d_isVerified (doctor1\<lparr>d_verificationDocuments := docs\<rparr>)
                               then doctor1\<lparr>d_verificationDocuments := docs, d_isVerified := False\<rparr>
                               else doctor1\<lparr>d_verificationDocuments := docs\<rparr>)"
  have dbup: "db (snd up) = db w" by (simp add: up_def upload_documents_db)
  have run: "updateDoctor e req w
               = (respond 200 True ''Doctor profile updated successfully'' (Some saved),
                  (snd up)\<lparr>db := save_doctor saved (db (snd up))\<rparr>)"
    using assms found docs
    by (simp add: updateDoctor_def Let_def respond_def case_prod_beta
          doctor1_def [symmetric] up_def [symmetric] saved_def split: if_splits)
  have w1: "written_fields (req_body req) doctor doctor1"
    by (simp add: doctor1_def updateDoctor_fields_written)
  have ws: "written_fields (req_body req) doctor saved"
    by (simp add: saved_def written_fields_frame w1)
  have id: "d_id saved = d_id doctor"
    by (simp add: saved_def doctor1_def updateDoctor_fields_frame)
  have av: "d_availability saved
              = (case availability (req_body req) of
                   Some av \<Rightarrow> av | None \<Rightarrow> d_availability doctor)"
    by (simp add: saved_def doctor1_def updateDoctor_fields_frame)
  show ?thesis
    using found ws av unfolding run
    by (intro exI [of _ doctor] exI [of _ saved]) (simp add: respond_def save_doctor_def dbup id)
qed

lemma updateDoctorProfile_success:
  assumes "status (fst (updateDoctorProfile e req w)) = 200"
  shows "\<exists>doctor saved.
           find (\<lambda>d. d_user d = user_id req) (doctors (db w)) = Some doctor
           \<and> data (fst (updateDoctorProfile e req w)) = Some saved
           \<and> doctors (db (snd (updateDoctorProfile e req w)))
               = map (\<lambda>x. if d_id x = d_id doctor then saved else x) (doctors (db w))
           \<and> written_fields (req_body req) doctor saved
           \<and> d_availability saved = d_availability doctor"
proof -
  from assms obtain doctor where
    found: "find (\<lambda>d. d_user d = user_id req) (doctors (db w)) = Some doctor"
    by (cases "find (\<lambda>d. d_user d = user_id req) (doctors (db w))")
       (auto simp: updateDoctorProfile_def Let_def respond_def split: if_splits)
  define saved where "saved = updateDoctorProfile_fields (req_body req) doctor"
  have run: "updateDoctorProfile e req w
               = (respond 200 True ''Doctor profile updated successfully'' (Some saved),
                  w\<lparr>db := save_doctor saved (db w)\<rparr>)"
    using assms found
    by (simp add: updateDoctorProfile_def Let_def respond_def
          saved_def split: if_splits)
  have ws: "written_fields (req_body req) doctor saved"
    by (simp add: saved_def updateDoctorProfile_fields_written)
  have id: "d_id saved = d_id doctor"
    by (simp add: saved_def updateDoctorProfile_fields_frame)
  have av: "d_availability saved = d_availability doctor"
    by (simp add: saved_def updateDoctorProfile_fields_frame)
  show ?thesis
    using found ws av unfolding run
    by (intro exI [of _ doctor] exI [of _ saved]) (simp add: respond_def save_doctor_def id)
qed

lemma written_fields_falsy:
  assumes "written_fields b old new"
  shows "(consultationFee b = JNum 0 \<longrightarrow> d_consultationFee new = d_consultationFee old)
         \<and> (bio b = JStr [] \<longrightarrow> d_bio new = d_bio old)"
  using assms by (simp add: written_fields_def)

text \<open>
  C10. When \<^verbatim>\<open>updateDoctor\<close> or \<^verbatim>\<open>updateDoctorProfile\<close> succeeds, the document it stores in
  place of the doctor's (and returns) has, for each of qualifications, specialties,
  experience, clinicDetails, hospitalAffiliations, consultationFee, languages and bio, the
  value of the request when that value is truthy and the stored value otherwise, and for
  videoConsultation and acceptingNewPatients the value of the request unless it is
  \<^verbatim>\<open>undefined\<close>; \<^verbatim>\<open>updateDoctor\<close> writes the availability when the request has one and
  \<^verbatim>\<open>updateDoctorProfile\<close> never does. In particular a request with the consultation fee 0 or the empty bio
  leaves the stored fee or bio as it was.
\<close>

theorem update_handlers_write_truthy_fields:
  "(status (fst (updateDoctor e req w)) = 200 \<longrightarrow>
      (\<exists>doctor saved.
         find (\<lambda>d. d_id d = params_id req) (doctors (db w)) = Some doctor
         \<and> data (fst (updateDoctor e req w)) = Some saved
         \<and> doctors (db (snd (updateDoctor e req w)))
             = map (\<lambda>x. if d_id x = d_id doctor then saved else x) (doctors (db w))
         \<and> written_fields (req_body req) doctor saved
         \<and> d_availability saved
             = (case availability (req_body req) of
                  Some av \<Rightarrow> av | None \<Rightarrow> d_availability doctor)
         \<and> (consultationFee (req_body req) = JNum 0
              \<longrightarrow> d_consultationFee saved = d_consultationFee doctor)
         \<and> (bio (req_body req) = JStr [] \<longrightarrow> d_bio saved = d_bio doctor)))
   \<and> (status (fst (updateDoctorProfile e req w)) = 200 \<longrightarrow>
      (\<exists>doctor saved.
         find (\<lambda>d. d_user d = user_id req) (doctors (db w)) = Some doctor
         \<and> data (fst (updateDoctorProfile e req w)) = Some saved
         \<and> doctors (db (snd (updateDoctorProfile e req w)))
             = map (\<lambda>x. if d_id x = d_id doctor then saved else x) (doctors (db w))
         \<and> written_fields (req_body req) doctor saved
         \<and> d_availability saved = d_availability doctor
         \<and> (consultationFee (req_body req) = JNum 0
              \<longrightarrow> d_consultationFee saved = d_consultationFee doctor)
         \<and> (bio (req_body req) = JStr [] \<longrightarrow> d_bio saved = d_bio doctor)))"
proof (intro conjI impI)
  assume "status (fst (updateDoctor e req w)) = 200"
  from updateDoctor_success [OF this] obtain doctor saved where
    h: "find (\<lambda>d. d_id d = params_id req) (doctors (db w)) = Some doctor"
       "data (fst (updateDoctor e req w)) = Some saved"
       "doctors (db (snd (updateDoctor e req w)))
          = map (\<lambda>x. if d_id x = d_id doctor then saved else x) (doctors (db w))"
       "written_fields (req_body req) doctor saved"
       "d_availability saved
          = (case availability (req_body req) of
               Some av \<Rightarrow> av | None \<Rightarrow> d_availability doctor)"
    by blast
  with written_fields_falsy [OF h(4)]
  show "\<exists>doctor saved.
         find (\<lambda>d. d_id d = params_id req) (doctors (db w)) = Some doctor
         \<and> data (fst (updateDoctor e req w)) = Some saved
         \<and> doctors (db (snd (updateDoctor e req w)))
             = map (\<lambda>x. if d_id x = d_id doctor then saved else x) (doctors (db w))
         \<and> written_fields (req_body req) doctor saved
         \<and> d_availability saved
             = (case availability (req_body req) of
                  Some av \<Rightarrow> av | None \<Rightarrow> d_availability doctor)
         \<and> (consultationFee (req_body req) = JNum 0
              \<longrightarrow> d_consultationFee saved = d_consultationFee doctor)
         \<and> (bio (req_body req) = JStr [] \<longrightarrow> d_bio saved = d_bio doctor)"
    by (intro exI [of _ doctor] exI [of _ saved]) simp
next
  assume "status (fst (updateDoctorProfile e req w)) = 200"
  from updateDoctorProfile_success [OF this] obtain doctor saved where
    h: "find (\<lambda>d. d_user d = user_id req) (doctors (db w)) = Some doctor"
       "data (fst (updateDoctorProfile e req w)) = Some saved"
       "doctors (db (snd (updateDoctorProfile e req w)))
          = map (\<lambda>x. if d_id x = d_id doctor then saved else x) (doctors (db w))"
       "written_fields (req_body req) doctor saved"
       "d_availability saved = d_availability doctor"
    by blast
  with written_fields_falsy [OF h(4)]
  show "\<exists>doctor saved.
         find (\<lambda>d. d_user d = user_id req) (doctors (db w)) = Some doctor
         \<and> data (fst (updateDoctorProfile e req w)) = Some saved
         \<and> doctors (db (snd (updateDoctorProfile e req w)))
             = map (\<lambda>x. if d_id x = d_id doctor then saved else x) (doctors (db w))
         \<and> written_fields (req_body req) doctor saved
         \<and> d_availability saved = d_availability doctor
         \<and> (consultationFee (req_body req) = JNum 0
              \<longrightarrow> d_consultationFee saved = d_consultationFee doctor)
         \<and> (bio (req_body req) = JStr [] \<longrightarrow> d_bio saved = d_bio doctor)"
    by (intro exI [of _ doctor] exI [of _ saved]) simp
qed

theorem update_handlers_write_truthy_fields_witness:
  "status (fst (updateDoctor (sample_env (\<lambda>c. False)) (sample_request 1 ''doctor'' 10)
                  sample_world)) = 200
   \<and> map (\<lambda>d. (d_consultationFee d, d_bio d, d_videoConsultation d))
        (doctors (db (snd (updateDoctor (sample_env (\<lambda>c. False))
                             (sample_request 1 ''doctor'' 10) sample_world))))
       = [(JNum 500, JStr ''Cardiologist'', JBool False),
          (JNum 500, JStr ''Cardiologist'', JBool True)]
   \<and> status (fst (updateDoctorProfile (sample_env (\<lambda>c. False))
                    (sample_request 1 ''doctor'' 10) sample_world)) = 200
   \<and> map (\<lambda>d. (d_consultationFee d, d_bio d, d_videoConsultation d))
        (doctors (db (snd (updateDoctorProfile (sample_env (\<lambda>c. False))
                             (sample_request 1 ''doctor'' 10) sample_world))))
       = [(JNum 500, JStr ''Cardiologist'', JBool False),
          (JNum 500, JStr ''Cardiologist'', JBool True)]"
proof -
  have a: "status (fst (updateDoctor (sample_env (\<lambda>c. False)) (sample_request 1 ''doctor'' 10)
                          sample_world)) = 200"
    by (simp add: sample_defs updateDoctor_def Let_def respond_def)
  have b: "status (fst (updateDoctorProfile (sample_env (\<lambda>c. False))
                          (sample_request 1 ''doctor'' 10) sample_world)) = 200"
    by (simp add: sample_defs updateDoctorProfile_def Let_def respond_def)
  from update_handlers_write_truthy_fields
         [of "sample_env (\<lambda>c. False)" "sample_request 1 ''doctor'' 10" sample_world] a b
  obtain d1 s1 d2 s2 where
    u: "find (\<lambda>d. d_id d = params_id (sample_request 1 ''doctor'' 10))
          (doctors (db sample_world)) = Some d1"
       "doctors (db (snd (updateDoctor (sample_env (\<lambda>c. False))
                            (sample_request 1 ''doctor'' 10) sample_world)))
          = map (\<lambda>x. if d_id x = d_id d1 then s1 else x) (doctors (db sample_world))"
       "written_fields (req_body (sample_request 1 ''doctor'' 10)) d1 s1"
    and p: "find (\<lambda>d. d_user d = user_id (sample_request 1 ''doctor'' 10))
          (doctors (db sample_world)) = Some d2"
       "doctors (db (snd (updateDoctorProfile (sample_env (\<lambda>c. False))
                            (sample_request 1 ''doctor'' 10) sample_world)))
          = map (\<lambda>x. if d_id x = d_id d2 then s2 else x) (doctors (db sample_world))"
       "written_fields (req_body (sample_request 1 ''doctor'' 10)) d2 s2"
    by blast
  from u(1) have d1: "d1 = sample_doctor"
    by (simp add: sample_world_def sample_request_def sample_doctor_def)
  from p(1) have d2: "d2 = sample_doctor"
    by (simp add: sample_world_def sample_request_def sample_doctor_def)
  from u(3) have f1: "d_consultationFee s1 = JNum 500" "d_bio s1 = JStr ''Cardiologist''"
      "d_videoConsultation s1 = JBool False"
    by (simp_all add: d1 written_fields_def sample_request_def sample_body_def sample_doctor_def)
  from p(3) have f2: "d_consultationFee s2 = JNum 500" "d_bio s2 = JStr ''Cardiologist''"
      "d_videoConsultation s2 = JBool False"
    by (simp_all add: d2 written_fields_def sample_request_def sample_body_def sample_doctor_def)
  show ?thesis
    unfolding u(2) p(2) using a b f1 f2
    by (simp add: d1 d2 sample_world_def sample_doctor_def sample_doctor2_def)
qed

end
